theory Spec2Isabelle
  imports Complex_Main
begin

section \<open>Values, arrays and pytrees\<close>

text \<open>
  The exceptions raised by \<open>coax/td_learning/_base.py\<close>, as values. A call that raises
  returns \<open>Inl\<close> of its exception; a call that returns normally returns \<open>Inr\<close>.
\<close>

datatype error = TypeError | AttributeError | RuntimeError | AssertionError | KeyError

text \<open>
  The entries of a gradient array are classified the way \<open>jnp.isnan\<close> and
  \<open>jnp.isfinite\<close> classify an IEEE value: a finite number, one of the two infinities, or
  not-a-number.
\<close>

datatype fl = Finite real | PosInf | NegInf | NaN

definition isnan :: "fl \<Rightarrow> bool" where
  "isnan x = (x = NaN)"

definition isfinite :: "fl \<Rightarrow> bool" where
  "isfinite x = (case x of Finite r \<Rightarrow> True | PosInf \<Rightarrow> False | NegInf \<Rightarrow> False | NaN \<Rightarrow> False)"

text \<open>An array: its shape and its entries in row-major order.\<close>

record 'a ndarray =
  shape :: "nat list"
  data :: "'a list"

text \<open>
  A pytree as \<open>jax.tree_util\<close> sees it: a leaf, or a node that carries its container
  type and auxiliary data (the keys of a dict, the name of a named tuple) and its
  children in order.
\<close>

datatype 'a pytree = Leaf 'a | Node string "'a pytree list"

fun tree_leaves :: "'a pytree \<Rightarrow> 'a list" where
  "tree_leaves (Leaf x) = [x]"
| "tree_leaves (Node aux ts) = concat (map tree_leaves ts)"

fun tree_structure :: "'a pytree \<Rightarrow> unit pytree" where
  "tree_structure (Leaf x) = Leaf ()"
| "tree_structure (Node aux ts) = Node aux (map tree_structure ts)"

section \<open>Python objects\<close>

text \<open>
  What a constructor can be handed: \<open>None\<close>, a list, a tuple, or any other object, known
  by its identity. The mutable attributes of an object live in the heap, under its
  identity, so that two names for one object (\<open>self._f\<close> and \<open>self._f_targ\<close> when no
  target is given) see the same attributes.
\<close>

datatype pyobj = PyNone | PyList "pyobj list" | PyTuple "pyobj list" | Obj nat

text \<open>
  The attributes of a heap object that the TD-learning core reads or writes. An
  attribute the object does not have is \<open>None\<close> here: reading it raises AttributeError,
  and \<open>getattr(x, name, None)\<close> yields Python's None.
\<close>

record ('v, 'r) attrs =
  params :: "'v option"
  function_state :: "'v option"
  random_key :: "'r option"
  f_attr :: "pyobj option"
  hyperparams :: "'v option"

type_synonym ('v, 'r) heap = "nat \<Rightarrow> ('v, 'r) attrs"

text \<open>\<open>None\<close>, a list and a tuple have none of these attributes.\<close>

definition attrs_of :: "('v, 'r) heap \<Rightarrow> pyobj \<Rightarrow> ('v, 'r) attrs option" where
  "attrs_of h x =
     (case x of Obj n \<Rightarrow> Some (h n) | PyNone \<Rightarrow> None | PyList xs \<Rightarrow> None | PyTuple xs \<Rightarrow> None)"

definition get_params :: "('v, 'r) heap \<Rightarrow> pyobj \<Rightarrow> error + 'v" where
  \<comment> \<open>\<open>x.params\<close>\<close>
  "get_params h x =
     (case attrs_of h x of
        None \<Rightarrow> Inl AttributeError
      | Some a \<Rightarrow> (case params a of None \<Rightarrow> Inl AttributeError | Some p \<Rightarrow> Inr p))"

definition get_function_state :: "('v, 'r) heap \<Rightarrow> pyobj \<Rightarrow> error + 'v" where
  \<comment> \<open>\<open>x.function_state\<close>\<close>
  "get_function_state h x =
     (case attrs_of h x of
        None \<Rightarrow> Inl AttributeError
      | Some a \<Rightarrow> (case function_state a of None \<Rightarrow> Inl AttributeError | Some s \<Rightarrow> Inr s))"

text \<open>
  \<open>getattr(x, name, None)\<close>: Python's None (here \<open>None\<close>, resp. \<open>PyNone\<close>) when \<open>x\<close> has no
  such attribute, which is the case for \<open>x = None\<close>.
\<close>

definition getattr_f :: "('v, 'r) heap \<Rightarrow> pyobj \<Rightarrow> pyobj" where
  "getattr_f h x =
     (case attrs_of h x of
        None \<Rightarrow> PyNone
      | Some a \<Rightarrow> (case f_attr a of None \<Rightarrow> PyNone | Some y \<Rightarrow> y))"

definition getattr_params :: "('v, 'r) heap \<Rightarrow> pyobj \<Rightarrow> 'v option" where
  "getattr_params h x = (case attrs_of h x of None \<Rightarrow> None | Some a \<Rightarrow> params a)"

definition getattr_function_state :: "('v, 'r) heap \<Rightarrow> pyobj \<Rightarrow> 'v option" where
  "getattr_function_state h x = (case attrs_of h x of None \<Rightarrow> None | Some a \<Rightarrow> function_state a)"

definition getattr_hyperparams :: "('v, 'r) heap \<Rightarrow> pyobj \<Rightarrow> 'v option" where
  "getattr_hyperparams h x = (case attrs_of h x of None \<Rightarrow> None | Some a \<Rightarrow> hyperparams a)"

section \<open>Collaborators\<close>

text \<open>
  Gradients and optimizer updates are pytrees of arrays. An optimizer is the pair of
  functions an \<open>optax\<close> gradient transformation consists of.
\<close>

type_synonym grads = "fl ndarray pytree"

record ('v, 'w) optimizer =
  opt_init :: "'v \<Rightarrow> 'w pytree"
  opt_update :: "grads \<Rightarrow> 'w pytree \<Rightarrow> 'v \<Rightarrow> grads \<times> 'w pytree"

text \<open>
  A value loss \<open>loss_function(y_true, y_pred, w=None)\<close>: a scalar, or an exception (the
  arrays it is handed are checked for their shapes only after its first call).
\<close>

type_synonym loss_fn = "real ndarray \<Rightarrow> real ndarray \<Rightarrow> real ndarray option \<Rightarrow> error + real"

text \<open>
  The libraries and the parts of the package that \<open>_base.py\<close> imports, as parameters:
  \<open>jax.random.split\<close> (into two keys), \<open>optax.apply_updates\<close>, \<open>optax.adam(1e-3)\<close>,
  \<open>coax.value_losses.huber\<close>, the class tests \<open>isinstance(x, Regularizer)\<close>,
  \<open>is_vfunction\<close>, \<open>is_qfunction\<close>, \<open>is_policy\<close>, and the two attribute setters of a
  function approximator that the core assigns through (\<open>x.params = p\<close>,
  \<open>x.function_state = s\<close>), which may refuse the new value.
\<close>

record ('v, 'r, 'w) env =
  split :: "'r \<Rightarrow> 'r \<times> 'r"
  apply_updates :: "'v \<Rightarrow> grads \<Rightarrow> 'v"
  adam :: "('v, 'w) optimizer"
  huber :: loss_fn
  isinstance_Regularizer :: "pyobj \<Rightarrow> bool"
  is_vfunction :: "pyobj \<Rightarrow> bool"
  is_qfunction :: "pyobj \<Rightarrow> bool"
  is_policy :: "pyobj \<Rightarrow> bool"
  params_setter :: "('v, 'r) attrs \<Rightarrow> 'v \<Rightarrow> error + ('v, 'r) attrs"
  function_state_setter :: "('v, 'r) attrs \<Rightarrow> 'v \<Rightarrow> error + ('v, 'r) attrs"

definition set_params :: "('v, 'r, 'w, 'e) env_scheme \<Rightarrow> ('v, 'r) heap \<Rightarrow> pyobj \<Rightarrow> 'v \<Rightarrow> error + ('v, 'r) heap" where
  \<comment> \<open>\<open>x.params = p\<close>\<close>
  "set_params E h x p =
     (case x of
        Obj n \<Rightarrow> (case params_setter E (h n) p of Inl e \<Rightarrow> Inl e | Inr a \<Rightarrow> Inr (h(n := a)))
      | PyNone \<Rightarrow> Inl AttributeError
      | PyList xs \<Rightarrow> Inl AttributeError
      | PyTuple xs \<Rightarrow> Inl AttributeError)"

definition set_function_state :: "('v, 'r, 'w, 'e) env_scheme \<Rightarrow> ('v, 'r) heap \<Rightarrow> pyobj \<Rightarrow> 'v \<Rightarrow> error + ('v, 'r) heap" where
  \<comment> \<open>\<open>x.function_state = s\<close>\<close>
  "set_function_state E h x s =
     (case x of
        Obj n \<Rightarrow> (case function_state_setter E (h n) s of Inl e \<Rightarrow> Inl e | Inr a \<Rightarrow> Inr (h(n := a)))
      | PyNone \<Rightarrow> Inl AttributeError
      | PyList xs \<Rightarrow> Inl AttributeError
      | PyTuple xs \<Rightarrow> Inl AttributeError)"

text \<open>
  Modelled from the spec: the \<open>rng\<close> property of a function approximator
  (\<open>RandomStateMixin\<close>, \<open>coax/_base/mixins.py\<close>, is not among the sources). The generator
  state is owned by the object; every read consumes it and advances it.
\<close>

definition rng :: "('v, 'r, 'w, 'e) env_scheme \<Rightarrow> ('v, 'r) heap \<Rightarrow> pyobj \<Rightarrow> (error + 'r) \<times> ('v, 'r) heap" where
  "rng E h x =
     (case x of
        Obj n \<Rightarrow>
          (case random_key (h n) of
             None \<Rightarrow> (Inl AttributeError, h)
           | Some k \<Rightarrow>
               (let (k', key) = split E k
                in (Inr key, h(n := (h n)\<lparr>random_key := Some k'\<rparr>))))
      | PyNone \<Rightarrow> (Inl AttributeError, h)
      | PyList xs \<Rightarrow> (Inl AttributeError, h)
      | PyTuple xs \<Rightarrow> (Inl AttributeError, h))"

section \<open>BaseTDLearning\<close>

text \<open>
  The attributes of a TD-learning updater. \<open>f_obj\<close> is \<open>self._f\<close>; \<open>optimizer\<close> and
  \<open>optimizer_state\<close> are \<open>self._optimizer\<close> and \<open>self._optimizer_state\<close>, which the
  properties of the same names read.
\<close>

record ('v, 'w) td_learning =
  f_obj :: pyobj
  f_targ :: pyobj
  loss_function :: loss_fn
  policy_regularizer :: pyobj
  optimizer :: "('v, 'w) optimizer"
  optimizer_state :: "'w pytree"

text \<open>
  A target bundle (\<open>target_params\<close>, \<open>target_function_state\<close>): a dict from keys to
  values, where a value may be Python's None (\<open>Some None\<close>); a key that is not in the dict
  maps to \<open>None\<close>.
\<close>

type_synonym 'v target_bundle = "string \<Rightarrow> 'v option option"

text \<open>
  What a concrete class supplies to the base class: the two abstract properties, and the
  compiled functions \<open>self._grads_and_metrics_func\<close> and \<open>self._td_error_func\<close> that its
  constructor stores. \<open>'b\<close> is the type of transition batches, \<open>'m\<close> of the metrics
  dict, \<open>'t\<close> of the array of TD-errors, \<open>'z\<close> of the attributes a subclass adds.
\<close>

record ('v, 'r, 'w, 'b, 'm, 't, 'z) concrete =
  target_params :: "('v, 'r) heap \<Rightarrow> ('v, 'w, 'z) td_learning_scheme \<Rightarrow> error + 'v target_bundle"
  target_function_state :: "('v, 'r) heap \<Rightarrow> ('v, 'w, 'z) td_learning_scheme \<Rightarrow> error + 'v target_bundle"
  grads_and_metrics_func ::
    "'v \<Rightarrow> 'v target_bundle \<Rightarrow> 'v \<Rightarrow> 'v target_bundle \<Rightarrow> 'r \<Rightarrow> 'b \<Rightarrow> error + (grads \<times> 'v \<times> 'm \<times> 't)"
  td_error_func :: "'v \<Rightarrow> 'v target_bundle \<Rightarrow> 'v \<Rightarrow> 'v target_bundle \<Rightarrow> 'r \<Rightarrow> 'b \<Rightarrow> error + 't"

text \<open>The state a method runs in: the heap and \<open>self\<close>.\<close>

type_synonym ('v, 'r, 'w, 'z) world = "('v, 'r) heap \<times> ('v, 'w, 'z) td_learning_scheme"

definition apply_grads_func ::
  "('v, 'r, 'w, 'e) env_scheme \<Rightarrow> ('v, 'w) optimizer \<Rightarrow> 'w pytree \<Rightarrow> 'v \<Rightarrow> grads \<Rightarrow> 'w pytree \<times> 'v" where
  "apply_grads_func E opt opt_state p g =
     (let (updates, new_opt_state) = opt_update opt g opt_state p;
          new_params = apply_updates E p updates
      in (new_opt_state, new_params))"

definition set_optimizer ::
  "('v, 'r, 'w, 'z) world \<Rightarrow> ('v, 'w) optimizer \<Rightarrow> (error + unit) \<times> ('v, 'r, 'w, 'z) world" where
  \<comment> \<open>\<open>self.optimizer = new_optimizer\<close>\<close>
  "set_optimizer w new_optimizer =
     (case w of (h, self) \<Rightarrow>
        (case get_params h (f_obj self) of
           Inl e \<Rightarrow> (Inl e, (h, self))
         | Inr p \<Rightarrow>
             if tree_structure (opt_init new_optimizer p) \<noteq> tree_structure (optimizer_state self)
             then (Inl AttributeError, (h, self))
             else (Inr (), (h, self\<lparr>optimizer := new_optimizer\<rparr>))))"

definition set_optimizer_state ::
  "('v, 'r, 'w, 'z) world \<Rightarrow> 'w pytree \<Rightarrow> (error + unit) \<times> ('v, 'r, 'w, 'z) world" where
  \<comment> \<open>\<open>self.optimizer_state = new_optimizer_state\<close>\<close>
  "set_optimizer_state w new_optimizer_state =
     (case w of (h, self) \<Rightarrow>
        if tree_structure new_optimizer_state \<noteq> tree_structure (optimizer_state self)
        then (Inl AttributeError, (h, self))
        else (Inr (), (h, self\<lparr>optimizer_state := new_optimizer_state\<rparr>)))"

definition update_from_grads ::
  "('v, 'r, 'w, 'e) env_scheme \<Rightarrow> ('v, 'r, 'w, 'z) world \<Rightarrow> grads \<Rightarrow> 'v \<Rightarrow> (error + unit) \<times> ('v, 'r, 'w, 'z) world" where
  "update_from_grads E w g fstate =
     (case w of (h, self) \<Rightarrow>
        (case set_function_state E h (f_obj self) fstate of
           Inl e \<Rightarrow> (Inl e, (h, self))
         | Inr h1 \<Rightarrow>
             (case get_params h1 (f_obj self) of
                Inl e \<Rightarrow> (Inl e, (h1, self))
              | Inr p \<Rightarrow>
                  (let (new_opt_state, new_params) =
                         apply_grads_func E (optimizer self) (optimizer_state self) p g
                   in (case set_optimizer_state (h1, self) new_opt_state of
                         (Inl e, w2) \<Rightarrow> (Inl e, w2)
                       | (Inr u, (h2, self2)) \<Rightarrow>
                           (case set_params E h2 (f_obj self2) new_params of
                              Inl e \<Rightarrow> (Inl e, (h2, self2))
                            | Inr h3 \<Rightarrow> (Inr (), (h3, self2))))))))"

definition grads_and_metrics ::
  "('v, 'r, 'w, 'b, 'm, 't, 'z) concrete \<Rightarrow> ('v, 'r, 'w, 'e) env_scheme \<Rightarrow> ('v, 'r, 'w, 'z) world \<Rightarrow> 'b \<Rightarrow>
     (error + (grads \<times> 'v \<times> 'm \<times> 't)) \<times> ('v, 'r, 'w, 'z) world" where
  "grads_and_metrics C E w transition_batch =
     (case w of (h, self) \<Rightarrow>
        (case get_params h (f_obj self) of
           Inl e \<Rightarrow> (Inl e, (h, self))
         | Inr p \<Rightarrow>
        (case target_params C h self of
           Inl e \<Rightarrow> (Inl e, (h, self))
         | Inr tp \<Rightarrow>
        (case get_function_state h (f_obj self) of
           Inl e \<Rightarrow> (Inl e, (h, self))
         | Inr s \<Rightarrow>
        (case target_function_state C h self of
           Inl e \<Rightarrow> (Inl e, (h, self))
         | Inr ts \<Rightarrow>
        (case rng E h (f_obj self) of
           (Inl e, h1) \<Rightarrow> (Inl e, (h1, self))
         | (Inr key, h1) \<Rightarrow>
             (grads_and_metrics_func C p tp s ts key transition_batch, (h1, self))))))))"

definition td_error ::
  "('v, 'r, 'w, 'b, 'm, 't, 'z) concrete \<Rightarrow> ('v, 'r, 'w, 'e) env_scheme \<Rightarrow> ('v, 'r, 'w, 'z) world \<Rightarrow> 'b \<Rightarrow>
     (error + 't) \<times> ('v, 'r, 'w, 'z) world" where
  "td_error C E w transition_batch =
     (case w of (h, self) \<Rightarrow>
        (case get_params h (f_obj self) of
           Inl e \<Rightarrow> (Inl e, (h, self))
         | Inr p \<Rightarrow>
        (case target_params C h self of
           Inl e \<Rightarrow> (Inl e, (h, self))
         | Inr tp \<Rightarrow>
        (case get_function_state h (f_obj self) of
           Inl e \<Rightarrow> (Inl e, (h, self))
         | Inr s \<Rightarrow>
        (case target_function_state C h self of
           Inl e \<Rightarrow> (Inl e, (h, self))
         | Inr ts \<Rightarrow>
        (case rng E h (f_obj self) of
           (Inl e, h1) \<Rightarrow> (Inl e, (h1, self))
         | (Inr key, h1) \<Rightarrow>
             (td_error_func C p tp s ts key transition_batch, (h1, self))))))))"

text \<open>\<open>any(jnp.any(jnp.isnan(g)) for g in jax.tree_leaves(grads))\<close>\<close>

definition found_nan :: "grads \<Rightarrow> bool" where
  "found_nan g = list_ex (\<lambda>leaf. list_ex isnan (data leaf)) (tree_leaves g)"

definition update ::
  "('v, 'r, 'w, 'b, 'm, 't, 'z) concrete \<Rightarrow> ('v, 'r, 'w, 'e) env_scheme \<Rightarrow> ('v, 'r, 'w, 'z) world \<Rightarrow> 'b \<Rightarrow> bool \<Rightarrow>
     (error + ('m \<times> 't option)) \<times> ('v, 'r, 'w, 'z) world" where
  "update C E w transition_batch return_td_error =
     (case grads_and_metrics C E w transition_batch of
        (Inl e, w1) \<Rightarrow> (Inl e, w1)
      | (Inr (g, fstate, metrics, td), w1) \<Rightarrow>
          if found_nan g then (Inl RuntimeError, w1)
          else
            (case update_from_grads E w1 g fstate of
               (Inl e, w2) \<Rightarrow> (Inl e, w2)
             | (Inr u, w2) \<Rightarrow>
                 (Inr (if return_td_error then (metrics, Some td) else (metrics, None)), w2)))"

section \<open>Constructors\<close>

text \<open>
  The constructors take the heap and hand it back with their result: they read the
  parameters of \<open>f\<close> to initialise the optimizer state and write to no object but \<open>self\<close>.
  The arguments \<open>optimizer\<close> and \<open>loss_function\<close> are \<open>None\<close> or a value.
\<close>

definition BaseTDLearning_init ::
  "('v, 'r, 'w, 'e) env_scheme \<Rightarrow> ('v, 'r) heap \<Rightarrow> pyobj \<Rightarrow> pyobj \<Rightarrow> ('v, 'w) optimizer option \<Rightarrow>
     loss_fn option \<Rightarrow> pyobj \<Rightarrow> (error + ('v, 'w) td_learning) \<times> ('v, 'r) heap" where
  "BaseTDLearning_init E h f f_targ_arg optimizer_arg loss_function_arg regularizer_arg =
     (if \<not> (isinstance_Regularizer E regularizer_arg \<or> regularizer_arg = PyNone)
      then (Inl TypeError, h)
      else
        (let opt = (case optimizer_arg of None \<Rightarrow> adam E | Some x \<Rightarrow> x)
         in (case get_params h f of
               Inl e \<Rightarrow> (Inl e, h)
             | Inr p \<Rightarrow>
                 (Inr \<lparr>f_obj = f,
                       f_targ = (if f_targ_arg = PyNone then f else f_targ_arg),
                       loss_function = (case loss_function_arg of None \<Rightarrow> huber E | Some l \<Rightarrow> l),
                       policy_regularizer = regularizer_arg,
                       optimizer = opt,
                       optimizer_state = opt_init opt p\<rparr>, h))))"

definition BaseTDLearningV_init ::
  "('v, 'r, 'w, 'e) env_scheme \<Rightarrow> ('v, 'r) heap \<Rightarrow> pyobj \<Rightarrow> pyobj \<Rightarrow> ('v, 'w) optimizer option \<Rightarrow>
     loss_fn option \<Rightarrow> pyobj \<Rightarrow> (error + ('v, 'w) td_learning) \<times> ('v, 'r) heap" where
  "BaseTDLearningV_init E h v v_targ optimizer_arg loss_function_arg regularizer_arg =
     (if \<not> is_vfunction E v then (Inl TypeError, h)
      else if \<not> (v_targ = PyNone \<or> is_vfunction E v_targ) then (Inl TypeError, h)
      else BaseTDLearning_init E h v v_targ optimizer_arg loss_function_arg regularizer_arg)"

text \<open>\<open>isinstance(x, (list, tuple))\<close>\<close>

fun isinstance_list_tuple :: "pyobj \<Rightarrow> bool" where
  "isinstance_list_tuple (PyList xs) = True"
| "isinstance_list_tuple (PyTuple xs) = True"
| "isinstance_list_tuple PyNone = False"
| "isinstance_list_tuple (Obj n) = False"

definition BaseTDLearningQ_init ::
  "('v, 'r, 'w, 'e) env_scheme \<Rightarrow> ('v, 'r) heap \<Rightarrow> pyobj \<Rightarrow> pyobj \<Rightarrow> ('v, 'w) optimizer option \<Rightarrow>
     loss_fn option \<Rightarrow> pyobj \<Rightarrow> (error + ('v, 'w) td_learning) \<times> ('v, 'r) heap" where
  "BaseTDLearningQ_init E h q q_targ optimizer_arg loss_function_arg regularizer_arg =
     (if \<not> is_qfunction E q then (Inl TypeError, h)
      else if \<not> (q_targ = PyNone \<or> isinstance_list_tuple q_targ \<or> is_qfunction E q_targ)
      then (Inl TypeError, h)
      else BaseTDLearning_init E h q q_targ optimizer_arg loss_function_arg regularizer_arg)"

text \<open>\<open>BaseTDLearningQWithTargetPolicy\<close> adds the attribute \<open>pi_targ\<close>.\<close>

record ('v, 'w) td_learning_pi = "('v, 'w) td_learning" +
  pi_targ :: pyobj

definition BaseTDLearningQWithTargetPolicy_init ::
  "('v, 'r, 'w, 'e) env_scheme \<Rightarrow> ('v, 'r) heap \<Rightarrow> pyobj \<Rightarrow> pyobj \<Rightarrow> pyobj \<Rightarrow> ('v, 'w) optimizer option \<Rightarrow>
     loss_fn option \<Rightarrow> pyobj \<Rightarrow> (error + ('v, 'w) td_learning_pi) \<times> ('v, 'r) heap" where
  "BaseTDLearningQWithTargetPolicy_init E h q pi_targ_arg q_targ optimizer_arg loss_function_arg
       regularizer_arg =
     (if pi_targ_arg \<noteq> PyNone \<and> \<not> is_policy E pi_targ_arg then (Inl TypeError, h)
      else
        (case BaseTDLearningQ_init E h q q_targ optimizer_arg loss_function_arg regularizer_arg of
           (Inl e, h1) \<Rightarrow> (Inl e, h1)
         | (Inr self, h1) \<Rightarrow>
             (Inr \<lparr>f_obj = f_obj self, f_targ = f_targ self, loss_function = loss_function self,
                   policy_regularizer = policy_regularizer self, optimizer = optimizer self,
                   optimizer_state = optimizer_state self, pi_targ = pi_targ_arg\<rparr>, h1)))"

section \<open>Target bundles\<close>

text \<open>
  \<open>hk.data_structures.to_immutable_dict\<close> copies a dict into an immutable mapping with
  the same keys and the same values.
\<close>

definition to_immutable_dict :: "'v target_bundle \<Rightarrow> 'v target_bundle" where
  "to_immutable_dict d = d"

text \<open>
  The properties \<open>target_params\<close> and \<open>target_function_state\<close> of the three classes. The
  properties \<open>v\<close> and \<open>q\<close> read \<open>self._f\<close>, \<open>v_targ\<close> and \<open>q_targ\<close> read \<open>self._f_targ\<close>. The
  entries of the dict display are evaluated in the order they are written.
\<close>

definition target_params_V ::
  "('v, 'r) heap \<Rightarrow> ('v, 'w, 'z) td_learning_scheme \<Rightarrow> error + 'v target_bundle" where
  "target_params_V h self =
     (case get_params h (f_obj self) of
        Inl e \<Rightarrow> Inl e
      | Inr p \<Rightarrow>
     (case get_params h (f_targ self) of
        Inl e \<Rightarrow> Inl e
      | Inr p_targ \<Rightarrow>
          Inr (to_immutable_dict
            ((\<lambda>k. None)
              (''v'' := Some (Some p),
               ''v_targ'' := Some (Some p_targ),
               ''reg'' := Some (getattr_params h (getattr_f h (policy_regularizer self))),
               ''reg_hparams'' := Some (getattr_hyperparams h (policy_regularizer self)))))))"

definition target_function_state_V ::
  "('v, 'r) heap \<Rightarrow> ('v, 'w, 'z) td_learning_scheme \<Rightarrow> error + 'v target_bundle" where
  "target_function_state_V h self =
     (case get_function_state h (f_obj self) of
        Inl e \<Rightarrow> Inl e
      | Inr s \<Rightarrow>
     (case get_function_state h (f_targ self) of
        Inl e \<Rightarrow> Inl e
      | Inr s_targ \<Rightarrow>
          Inr (to_immutable_dict
            ((\<lambda>k. None)
              (''v'' := Some (Some s),
               ''v_targ'' := Some (Some s_targ),
               ''reg'' := Some (getattr_function_state h (getattr_f h (policy_regularizer self))))))))"

definition target_params_Q ::
  "('v, 'r) heap \<Rightarrow> ('v, 'w, 'z) td_learning_scheme \<Rightarrow> error + 'v target_bundle" where
  "target_params_Q h self =
     (case get_params h (f_obj self) of
        Inl e \<Rightarrow> Inl e
      | Inr p \<Rightarrow>
     (case get_params h (f_targ self) of
        Inl e \<Rightarrow> Inl e
      | Inr p_targ \<Rightarrow>
          Inr (to_immutable_dict
            ((\<lambda>k. None)
              (''q'' := Some (Some p),
               ''q_targ'' := Some (Some p_targ),
               ''reg'' := Some (getattr_params h (getattr_f h (policy_regularizer self))),
               ''reg_hparams'' := Some (getattr_hyperparams h (policy_regularizer self)))))))"

definition target_function_state_Q ::
  "('v, 'r) heap \<Rightarrow> ('v, 'w, 'z) td_learning_scheme \<Rightarrow> error + 'v target_bundle" where
  "target_function_state_Q h self =
     (case get_function_state h (f_obj self) of
        Inl e \<Rightarrow> Inl e
      | Inr s \<Rightarrow>
     (case get_function_state h (f_targ self) of
        Inl e \<Rightarrow> Inl e
      | Inr s_targ \<Rightarrow>
          Inr (to_immutable_dict
            ((\<lambda>k. None)
              (''q'' := Some (Some s),
               ''q_targ'' := Some (Some s_targ),
               ''reg'' := Some (getattr_function_state h (getattr_f h (policy_regularizer self))))))))"

definition target_params_QWithTargetPolicy ::
  "('v, 'r) heap \<Rightarrow> ('v, 'w, 'z) td_learning_pi_scheme \<Rightarrow> error + 'v target_bundle" where
  "target_params_QWithTargetPolicy h self =
     (case get_params h (f_obj self) of
        Inl e \<Rightarrow> Inl e
      | Inr p \<Rightarrow>
     (case get_params h (f_targ self) of
        Inl e \<Rightarrow> Inl e
      | Inr p_targ \<Rightarrow>
          Inr (to_immutable_dict
            ((\<lambda>k. None)
              (''q'' := Some (Some p),
               ''q_targ'' := Some (Some p_targ),
               ''pi_targ'' := Some (getattr_params h (pi_targ self)),
               ''reg'' := Some (getattr_params h (getattr_f h (policy_regularizer self))),
               ''reg_hparams'' := Some (getattr_hyperparams h (policy_regularizer self)))))))"

definition target_function_state_QWithTargetPolicy ::
  "('v, 'r) heap \<Rightarrow> ('v, 'w, 'z) td_learning_pi_scheme \<Rightarrow> error + 'v target_bundle" where
  "target_function_state_QWithTargetPolicy h self =
     (case get_function_state h (f_obj self) of
        Inl e \<Rightarrow> Inl e
      | Inr s \<Rightarrow>
     (case get_function_state h (f_targ self) of
        Inl e \<Rightarrow> Inl e
      | Inr s_targ \<Rightarrow>
          Inr (to_immutable_dict
            ((\<lambda>k. None)
              (''q'' := Some (Some s),
               ''q_targ'' := Some (Some s_targ),
               ''pi_targ'' := Some (getattr_function_state h (pi_targ self)),
               ''reg'' := Some (getattr_function_state h (getattr_f h (policy_regularizer self))))))))"

section \<open>The loss function of BaseTDLearningV and BaseTDLearningQ\<close>

text \<open>
  Inside \<open>loss_func\<close> the values, targets and importance weights are arrays of real
  numbers: the arithmetic of the loss is exact here, and rounding, overflow and NaN are
  outside this part of the model.
\<close>

record 'o transition_batch =
  tb_S :: 'o
  tb_A :: 'o
  tb_Rn :: "real ndarray"
  tb_In :: "real ndarray"
  tb_S_next :: 'o
  tb_A_next :: 'o
  tb_Done :: "bool list"
  tb_W :: "real ndarray"

text \<open>
  The regularization term is the Python float \<open>0.\<close> or an array; \<open>operand\<close> is what
  \<open>G += regularizer\<close> and \<open>affine_transform\<close> are handed.
\<close>

datatype operand = Scalar real | Arr "real ndarray"

text \<open>
  The metrics dict: a key maps to a scalar, where \<open>None\<close> stands for the NaN that
  \<open>jnp.mean\<close> returns for an array without entries.
\<close>

type_synonym metrics = "string \<Rightarrow> real option option"

definition jnp_mean :: "real ndarray \<Rightarrow> real option" where
  "jnp_mean a = (if data a = [] then None else Some (sum_list (data a) / real (length (data a))))"

definition jnp_clip :: "real ndarray \<Rightarrow> real \<Rightarrow> real \<Rightarrow> real ndarray" where
  "jnp_clip a a_min a_max = a\<lparr>data := map (\<lambda>x. min a_max (max a_min x)) (data a)\<rparr>"

definition neg :: "real ndarray \<Rightarrow> real ndarray" where
  "neg a = a\<lparr>data := map uminus (data a)\<rparr>"

definition scale :: "real \<Rightarrow> real ndarray \<Rightarrow> real ndarray" where
  "scale c a = a\<lparr>data := map (\<lambda>x. c * x) (data a)\<rparr>"

definition mul :: "real ndarray \<Rightarrow> real ndarray \<Rightarrow> real ndarray" where
  \<comment> \<open>\<open>a * b\<close> for arrays of one shape\<close>
  "mul a b = a\<lparr>data := map2 (*) (data a) (data b)\<rparr>"

definition assert_equal_shape :: "real ndarray list \<Rightarrow> error + unit" where
  "assert_equal_shape xs =
     (if list_all (\<lambda>x. shape x = shape (hd xs)) xs then Inr () else Inl AssertionError)"

definition assert_rank :: "real ndarray list \<Rightarrow> nat \<Rightarrow> error + unit" where
  "assert_rank xs r =
     (if list_all (\<lambda>x. length (shape x) = r) xs then Inr () else Inl AssertionError)"

definition subscript :: "'v target_bundle \<Rightarrow> string \<Rightarrow> error + 'v option" where
  \<comment> \<open>\<open>d[k]\<close>\<close>
  "subscript d k = (case d k of None \<Rightarrow> Inl KeyError | Some x \<Rightarrow> Inr x)"

text \<open>
  What \<open>loss_func\<close> calls and \<open>_base.py\<close> does not define, as parameters. A method takes
  the object it is called on first (\<open>self.v\<close>, \<open>self.q\<close> and the regularizer are heap
  objects). A function approximator's \<open>function\<close> (\<open>function_type1\<close> for a q-function)
  returns a value array for a plain head and distribution parameters for a stochastic
  head: these are the fields \<open>function_value\<close> and \<open>function_dist\<close>, and likewise for
  \<open>target_func\<close>. The parameters and states they are handed are Python values that may be
  None. \<open>affine_transform\<close>, \<open>cross_entropy\<close>, \<open>dist_mean\<close> and \<open>postprocess_variate\<close> are the
  methods of the approximator's \<open>proba_dist\<close> (\<open>affine_transform\<close> with the approximator's
  \<open>value_transform\<close> as its last argument, \<open>postprocess_variate\<close> with \<open>batch_mode=True\<close>).
  \<open>broadcast_add\<close> is the sum of two arrays of different shapes, \<open>jax_grad_loss f\<close> is
  \<open>jax.grad(f, argnums=1)\<close>, \<open>jax_grad_params f\<close> is the gradient part of
  \<open>jax.grad(f, has_aux=True)\<close>, and \<open>class_name\<close> is \<open>self.__class__.__name__\<close>.
\<close>

record ('v, 'r, 'w, 'o, 'x, 'd) collab = "('v, 'r, 'w) env" +
  class_name :: string
  is_stochastic :: "pyobj \<Rightarrow> bool"
  observation_preprocessor :: "pyobj \<Rightarrow> 'r \<Rightarrow> 'o \<Rightarrow> 'x"
  action_preprocessor :: "pyobj \<Rightarrow> 'r \<Rightarrow> 'o \<Rightarrow> 'x"
  function_value :: "pyobj \<Rightarrow> 'v option \<Rightarrow> 'v option \<Rightarrow> 'r \<Rightarrow> 'x \<Rightarrow> bool \<Rightarrow> real ndarray \<times> 'v"
  function_dist :: "pyobj \<Rightarrow> 'v option \<Rightarrow> 'v option \<Rightarrow> 'r \<Rightarrow> 'x \<Rightarrow> bool \<Rightarrow> 'd \<times> 'v"
  function_type1_value ::
    "pyobj \<Rightarrow> 'v option \<Rightarrow> 'v option \<Rightarrow> 'r \<Rightarrow> 'x \<Rightarrow> 'x \<Rightarrow> bool \<Rightarrow> real ndarray \<times> 'v"
  function_type1_dist ::
    "pyobj \<Rightarrow> 'v option \<Rightarrow> 'v option \<Rightarrow> 'r \<Rightarrow> 'x \<Rightarrow> 'x \<Rightarrow> bool \<Rightarrow> 'd \<times> 'v"
  affine_transform :: "pyobj \<Rightarrow> 'd \<Rightarrow> real \<Rightarrow> operand \<Rightarrow> 'd"
  cross_entropy :: "pyobj \<Rightarrow> 'd \<Rightarrow> 'd \<Rightarrow> real ndarray"
  dist_mean :: "pyobj \<Rightarrow> 'd \<Rightarrow> real ndarray"
  postprocess_variate :: "pyobj \<Rightarrow> 'r \<Rightarrow> real ndarray \<Rightarrow> real ndarray"
  batch_eval ::
    "pyobj \<Rightarrow> 'v option \<Rightarrow> 'v option \<Rightarrow> 'v option \<Rightarrow> 'r \<Rightarrow> 'o transition_batch \<Rightarrow> real ndarray"
  target_func_value ::
    "'v target_bundle \<Rightarrow> 'v target_bundle \<Rightarrow> 'r \<Rightarrow> 'o transition_batch \<Rightarrow> real ndarray"
  target_func_dist :: "'v target_bundle \<Rightarrow> 'v target_bundle \<Rightarrow> 'r \<Rightarrow> 'o transition_batch \<Rightarrow> 'd"
  broadcast_add :: "real ndarray \<Rightarrow> real ndarray \<Rightarrow> error + real ndarray"
  jax_grad_loss :: "loss_fn \<Rightarrow> real ndarray \<Rightarrow> real ndarray \<Rightarrow> real ndarray option \<Rightarrow> error + real ndarray"
  jax_grad_params ::
    "('v \<Rightarrow> error + (real option \<times> real ndarray \<times> 'v \<times> metrics)) \<Rightarrow> 'v \<Rightarrow> grads"
  get_grads_diagnostics :: "grads \<Rightarrow> string \<Rightarrow> metrics"

text \<open>
  \<open>next(rngs)\<close> for \<open>rngs = hk.PRNGSequence(key)\<close>: the key handed out, and the key the
  sequence keeps.
\<close>

definition next_key :: "('v, 'r, 'w, 'e) env_scheme \<Rightarrow> 'r \<Rightarrow> 'r \<times> 'r" where
  "next_key E k = (let (k', sub) = split E k in (sub, k'))"

definition add_operand ::
  "('v, 'r, 'w, 'o, 'x, 'd) collab \<Rightarrow> real ndarray \<Rightarrow> operand \<Rightarrow> error + real ndarray" where
  \<comment> \<open>\<open>G + regularizer\<close>\<close>
  "add_operand K G r =
     (case r of
        Scalar c \<Rightarrow> Inr (G\<lparr>data := map (\<lambda>g. g + c) (data G)\<rparr>)
      | Arr a \<Rightarrow>
          if shape a = shape G then Inr (G\<lparr>data := map2 (+) (data G) (data a)\<rparr>)
          else broadcast_add K G a)"

text \<open>The regularization term (lines 259-265 and 405-411), with the keys left.\<close>

definition regularization_term ::
  "('v, 'r, 'w, 'o, 'x, 'd) collab \<Rightarrow> ('v, 'w, 'z) td_learning_scheme \<Rightarrow> 'v target_bundle \<Rightarrow>
     'v target_bundle \<Rightarrow> 'r \<Rightarrow> 'o transition_batch \<Rightarrow> error + (operand \<times> 'r)" where
  "regularization_term K self target_params_arg target_state rngs transition_batch =
     (if policy_regularizer self = PyNone then Inr (Scalar 0, rngs)
      else
        (case subscript target_params_arg ''reg'' of
           Inl e \<Rightarrow> Inl e
         | Inr reg_params \<Rightarrow>
        (case subscript target_params_arg ''reg_hparams'' of
           Inl e \<Rightarrow> Inl e
         | Inr reg_hparams \<Rightarrow>
        (case subscript target_state ''reg'' of
           Inl e \<Rightarrow> Inl e
         | Inr reg_state \<Rightarrow>
             (let (key, rngs1) = next_key K rngs
              in Inr (Arr (neg (batch_eval K (policy_regularizer self) reg_params reg_hparams
                                  reg_state key transition_batch)), rngs1))))))"

text \<open>
  The rest of \<open>loss_func\<close> (lines 298-308 and 445-455, the same text in both classes): the
  assertions on shape and rank, the TD-error and the metrics.
\<close>

definition td_error_and_metrics ::
  "('v, 'r, 'w, 'o, 'x, 'd) collab \<Rightarrow> ('v, 'w, 'z) td_learning_scheme \<Rightarrow>
     real option \<times> real ndarray \<times> real ndarray \<times> real ndarray \<times> real ndarray \<times> 'v \<Rightarrow>
     error + (real option \<times> real ndarray \<times> 'v \<times> metrics)" where
  "td_error_and_metrics K self r =
     (case r of (loss, G, V, V_targ, W, state_new) \<Rightarrow>
        (case assert_equal_shape [G, V, V_targ, W] of
           Inl e \<Rightarrow> Inl e
         | Inr u \<Rightarrow>
        (case assert_rank [G, V, V_targ, W] 1 of
           Inl e \<Rightarrow> Inl e
         | Inr u \<Rightarrow>
        (case jax_grad_loss K (loss_function self) G V None of
           Inl e \<Rightarrow> Inl e
         | Inr dLoss \<Rightarrow>
             (let td = scale (- real (hd (shape V))) dLoss
              in (case assert_equal_shape [td, W] of
                    Inl e \<Rightarrow> Inl e
                  | Inr u \<Rightarrow>
                 (case jax_grad_loss K (loss_function self) V V_targ (Some W) of
                    Inl e \<Rightarrow> Inl e
                  | Inr dTarg \<Rightarrow>
                      Inr (loss, td, state_new,
                           (\<lambda>k. None)
                             (class_name K @ ''/loss'' := Some loss,
                              class_name K @ ''/td_error'' := Some (jnp_mean (mul W td)),
                              class_name K @ ''/td_error_targ'' := Some (jnp_mean (neg dTarg)))))))))))"

text \<open>
  \<open>loss_func\<close> of \<open>BaseTDLearningV\<close>, lines 254-296: the prediction, the target and the loss. It
  returns what the rest of \<open>loss_func\<close> uses: \<open>loss\<close>, \<open>G\<close>, \<open>V\<close>, \<open>V_targ\<close>, \<open>W\<close> and
  \<open>state_new\<close>.
\<close>

definition predict_and_target_V ::
  "('v, 'r, 'w, 'o, 'x, 'd) collab \<Rightarrow> ('v, 'w, 'z) td_learning_scheme \<Rightarrow> 'v \<Rightarrow> 'v target_bundle \<Rightarrow>
     'v \<Rightarrow> 'v target_bundle \<Rightarrow> 'r \<Rightarrow> 'o transition_batch \<Rightarrow>
     error + (real option \<times> real ndarray \<times> real ndarray \<times> real ndarray \<times> real ndarray \<times> 'v)" where
  "predict_and_target_V K self params_arg target_params_arg state target_state rng_arg
       transition_batch =
     (let (key_S, rngs1) = next_key K rng_arg;
          S = observation_preprocessor K (f_obj self) key_S (tb_S transition_batch);
          W = jnp_clip (tb_W transition_batch) (1 / 10) 10
      in (case regularization_term K self target_params_arg target_state rngs1 transition_batch of
            Inl e \<Rightarrow> Inl e
          | Inr (regularizer, rngs2) \<Rightarrow>
              if is_stochastic K (f_obj self) then
                (let (key_f, rngs3) = next_key K rngs2;
                     (dist_params, state_new) =
                        function_dist K (f_obj self) (Some params_arg) (Some state) key_f S True;
                     dist_params_target0 =
                        target_func_dist K target_params_arg target_state rng_arg transition_batch;
                     dist_params_target =
                        (if policy_regularizer self \<noteq> PyNone
                         then affine_transform K (f_obj self) dist_params_target0 1 regularizer
                         else dist_params_target0);
                     loss = jnp_mean (cross_entropy K (f_obj self) dist_params_target dist_params);
                     (key_V, rngs4) = next_key K rngs3;
                     V = postprocess_variate K (f_obj self) key_V (dist_mean K (f_obj self) dist_params);
                     (key_G, rngs5) = next_key K rngs4;
                     G = postprocess_variate K (f_obj self) key_G
                           (dist_mean K (f_obj self) dist_params_target)
                 in (case subscript target_params_arg ''v_targ'' of
                       Inl e \<Rightarrow> Inl e
                     | Inr p_targ \<Rightarrow>
                    (case subscript target_state ''v_targ'' of
                       Inl e \<Rightarrow> Inl e
                     | Inr s_targ \<Rightarrow>
                         (let (key_t, rngs6) = next_key K rngs5;
                              (dist_params_targ, u) =
                                 function_dist K (f_obj self) p_targ s_targ key_t S False;
                              (key_T, rngs7) = next_key K rngs6;
                              V_targ = postprocess_variate K (f_obj self) key_T
                                         (dist_mean K (f_obj self) dist_params_targ)
                          in Inr (loss, G, V, V_targ, W, state_new)))))
              else
                (let (key_f, rngs3) = next_key K rngs2;
                     (V, state_new) =
                        function_value K (f_obj self) (Some params_arg) (Some state) key_f S True;
                     (key_G, rngs4) = next_key K rngs3;
                     G0 = target_func_value K target_params_arg target_state key_G transition_batch
                 in (case add_operand K G0 regularizer of
                       Inl e \<Rightarrow> Inl e
                     | Inr G \<Rightarrow>
                    (case loss_function self G V (Some W) of
                       Inl e \<Rightarrow> Inl e
                     | Inr loss \<Rightarrow>
                    (case subscript target_params_arg ''v_targ'' of
                       Inl e \<Rightarrow> Inl e
                     | Inr p_targ \<Rightarrow>
                    (case subscript target_state ''v_targ'' of
                       Inl e \<Rightarrow> Inl e
                     | Inr s_targ \<Rightarrow>
                         (let (key_t, rngs5) = next_key K rngs4;
                              (V_targ, u) = function_value K (f_obj self) p_targ s_targ key_t S False
                          in Inr (Some loss, G, V, V_targ, W, state_new)))))))))"

definition loss_func_V ::
  "('v, 'r, 'w, 'o, 'x, 'd) collab \<Rightarrow> ('v, 'w, 'z) td_learning_scheme \<Rightarrow> 'v \<Rightarrow> 'v target_bundle \<Rightarrow>
     'v \<Rightarrow> 'v target_bundle \<Rightarrow> 'r \<Rightarrow> 'o transition_batch \<Rightarrow>
     error + (real option \<times> real ndarray \<times> 'v \<times> metrics)" where
  "loss_func_V K self params_arg target_params_arg state target_state rng_arg transition_batch =
     (case predict_and_target_V K self params_arg target_params_arg state target_state rng_arg
             transition_batch of
        Inl e \<Rightarrow> Inl e
      | Inr r \<Rightarrow> td_error_and_metrics K self r)"

definition grads_and_metrics_func_V ::
  "('v, 'r, 'w, 'o, 'x, 'd) collab \<Rightarrow> ('v, 'w, 'z) td_learning_scheme \<Rightarrow> 'v \<Rightarrow> 'v target_bundle \<Rightarrow>
     'v \<Rightarrow> 'v target_bundle \<Rightarrow> 'r \<Rightarrow> 'o transition_batch \<Rightarrow>
     error + (grads \<times> 'v \<times> metrics \<times> real ndarray)" where
  "grads_and_metrics_func_V K self params_arg target_params_arg state target_state rng_arg
       transition_batch =
     (let (key, rngs1) = next_key K rng_arg
      in (case loss_func_V K self params_arg target_params_arg state target_state key
                transition_batch of
            Inl e \<Rightarrow> Inl e
          | Inr (loss, td, state_new, metrics0) \<Rightarrow>
              (let g = jax_grad_params K
                         (\<lambda>p. loss_func_V K self p target_params_arg state target_state key
                                 transition_batch)
                         params_arg;
                   metrics1 = metrics0 ++ get_grads_diagnostics K g (class_name K @ ''/grads_'')
               in Inr (g, state_new, metrics1, td))))"

definition td_error_func_V ::
  "('v, 'r, 'w, 'o, 'x, 'd) collab \<Rightarrow> ('v, 'w, 'z) td_learning_scheme \<Rightarrow> 'v \<Rightarrow> 'v target_bundle \<Rightarrow>
     'v \<Rightarrow> 'v target_bundle \<Rightarrow> 'r \<Rightarrow> 'o transition_batch \<Rightarrow> error + real ndarray" where
  "td_error_func_V K self params_arg target_params_arg state target_state rng_arg transition_batch =
     (case loss_func_V K self params_arg target_params_arg state target_state rng_arg
             transition_batch of
        Inl e \<Rightarrow> Inl e
      | Inr (loss, td, state_new, metrics0) \<Rightarrow> Inr td)"

text \<open>
  What the constructor of \<open>BaseTDLearningV\<close> stores (\<open>jax.jit\<close> does not change what a function
  returns), with the two properties of the class.
\<close>

definition BaseTDLearningV ::
  "('v, 'r, 'w, 'o, 'x, 'd) collab \<Rightarrow> ('v, 'w, 'z) td_learning_scheme \<Rightarrow>
     ('v, 'r, 'w, 'o transition_batch, metrics, real ndarray, 'z) concrete" where
  "BaseTDLearningV K self =
     \<lparr>target_params = target_params_V,
      target_function_state = target_function_state_V,
      grads_and_metrics_func = grads_and_metrics_func_V K self,
      td_error_func = td_error_func_V K self\<rparr>"

text \<open>
  \<open>loss_func\<close> of \<open>BaseTDLearningQ\<close>, lines 399-443: the prediction, the target and the loss. It
  returns what the rest of \<open>loss_func\<close> uses: \<open>loss\<close>, \<open>G\<close>, \<open>Q\<close>, \<open>Q_targ\<close>, \<open>W\<close> and
  \<open>state_new\<close>.
\<close>

definition predict_and_target_Q ::
  "('v, 'r, 'w, 'o, 'x, 'd) collab \<Rightarrow> ('v, 'w, 'z) td_learning_scheme \<Rightarrow> 'v \<Rightarrow> 'v target_bundle \<Rightarrow>
     'v \<Rightarrow> 'v target_bundle \<Rightarrow> 'r \<Rightarrow> 'o transition_batch \<Rightarrow>
     error + (real option \<times> real ndarray \<times> real ndarray \<times> real ndarray \<times> real ndarray \<times> 'v)" where
  "predict_and_target_Q K self params_arg target_params_arg state target_state rng_arg
       transition_batch =
     (let (key_S, rngs1) = next_key K rng_arg;
          S = observation_preprocessor K (f_obj self) key_S (tb_S transition_batch);
          (key_A, rngs1a) = next_key K rngs1;
          A = action_preprocessor K (f_obj self) key_A (tb_A transition_batch);
          W = jnp_clip (tb_W transition_batch) (1 / 10) 10
      in (case regularization_term K self target_params_arg target_state rngs1a transition_batch of
            Inl e \<Rightarrow> Inl e
          | Inr (regularizer, rngs2) \<Rightarrow>
              if is_stochastic K (f_obj self) then
                (let (key_f, rngs3) = next_key K rngs2;
                     (dist_params, state_new) =
                        function_type1_dist K (f_obj self) (Some params_arg) (Some state) key_f S A True;
                     dist_params_target0 =
                        target_func_dist K target_params_arg target_state rng_arg transition_batch;
                     dist_params_target =
                        (if policy_regularizer self \<noteq> PyNone
                         then affine_transform K (f_obj self) dist_params_target0 1 regularizer
                         else dist_params_target0);
                     loss = jnp_mean (cross_entropy K (f_obj self) dist_params_target dist_params);
                     (key_V, rngs4) = next_key K rngs3;
                     V = postprocess_variate K (f_obj self) key_V (dist_mean K (f_obj self) dist_params);
                     (key_G, rngs5) = next_key K rngs4;
                     G = postprocess_variate K (f_obj self) key_G
                           (dist_mean K (f_obj self) dist_params_target)
                 in (case subscript target_params_arg ''q_targ'' of
                       Inl e \<Rightarrow> Inl e
                     | Inr p_targ \<Rightarrow>
                    (case subscript target_state ''q_targ'' of
                       Inl e \<Rightarrow> Inl e
                     | Inr s_targ \<Rightarrow>
                         (let (key_t, rngs6) = next_key K rngs5;
                              (dist_params_targ, u) =
                                 function_type1_dist K (f_obj self) p_targ s_targ key_t S A False;
                              (key_T, rngs7) = next_key K rngs6;
                              V_targ = postprocess_variate K (f_obj self) key_T
                                         (dist_mean K (f_obj self) dist_params_targ)
                          in Inr (loss, G, V, V_targ, W, state_new)))))
              else
                (let (key_f, rngs3) = next_key K rngs2;
                     (V, state_new) =
                        function_type1_value K (f_obj self) (Some params_arg) (Some state) key_f S A True;
                     (key_G, rngs4) = next_key K rngs3;
                     G0 = target_func_value K target_params_arg target_state key_G transition_batch
                 in (case add_operand K G0 regularizer of
                       Inl e \<Rightarrow> Inl e
                     | Inr G \<Rightarrow>
                    (case loss_function self G V (Some W) of
                       Inl e \<Rightarrow> Inl e
                     | Inr loss \<Rightarrow>
                    (case subscript target_params_arg ''q_targ'' of
                       Inl e \<Rightarrow> Inl e
                     | Inr p_targ \<Rightarrow>
                    (case subscript target_state ''q_targ'' of
                       Inl e \<Rightarrow> Inl e
                     | Inr s_targ \<Rightarrow>
                         (let (key_t, rngs5) = next_key K rngs4;
                              (V_targ, u) = function_type1_value K (f_obj self) p_targ s_targ key_t S A False
                          in Inr (Some loss, G, V, V_targ, W, state_new)))))))))"

definition loss_func_Q ::
  "('v, 'r, 'w, 'o, 'x, 'd) collab \<Rightarrow> ('v, 'w, 'z) td_learning_scheme \<Rightarrow> 'v \<Rightarrow> 'v target_bundle \<Rightarrow>
     'v \<Rightarrow> 'v target_bundle \<Rightarrow> 'r \<Rightarrow> 'o transition_batch \<Rightarrow>
     error + (real option \<times> real ndarray \<times> 'v \<times> metrics)" where
  "loss_func_Q K self params_arg target_params_arg state target_state rng_arg transition_batch =
     (case predict_and_target_Q K self params_arg target_params_arg state target_state rng_arg
             transition_batch of
        Inl e \<Rightarrow> Inl e
      | Inr r \<Rightarrow> td_error_and_metrics K self r)"

definition grads_and_metrics_func_Q ::
  "('v, 'r, 'w, 'o, 'x, 'd) collab \<Rightarrow> ('v, 'w, 'z) td_learning_scheme \<Rightarrow> 'v \<Rightarrow> 'v target_bundle \<Rightarrow>
     'v \<Rightarrow> 'v target_bundle \<Rightarrow> 'r \<Rightarrow> 'o transition_batch \<Rightarrow>
     error + (grads \<times> 'v \<times> metrics \<times> real ndarray)" where
  "grads_and_metrics_func_Q K self params_arg target_params_arg state target_state rng_arg
       transition_batch =
     (let (key, rngs1) = next_key K rng_arg
      in (case loss_func_Q K self params_arg target_params_arg state target_state key
                transition_batch of
            Inl e \<Rightarrow> Inl e
          | Inr (loss, td, state_new, metrics0) \<Rightarrow>
              (let g = jax_grad_params K
                         (\<lambda>p. loss_func_Q K self p target_params_arg state target_state key
                                 transition_batch)
                         params_arg;
                   metrics1 = metrics0 ++ get_grads_diagnostics K g (class_name K @ ''/grads_'')
               in Inr (g, state_new, metrics1, td))))"

definition td_error_func_Q ::
  "('v, 'r, 'w, 'o, 'x, 'd) collab \<Rightarrow> ('v, 'w, 'z) td_learning_scheme \<Rightarrow> 'v \<Rightarrow> 'v target_bundle \<Rightarrow>
     'v \<Rightarrow> 'v target_bundle \<Rightarrow> 'r \<Rightarrow> 'o transition_batch \<Rightarrow> error + real ndarray" where
  "td_error_func_Q K self params_arg target_params_arg state target_state rng_arg transition_batch =
     (case loss_func_Q K self params_arg target_params_arg state target_state rng_arg
             transition_batch of
        Inl e \<Rightarrow> Inl e
      | Inr (loss, td, state_new, metrics0) \<Rightarrow> Inr td)"

text \<open>
  What the constructor of \<open>BaseTDLearningQ\<close> stores (\<open>jax.jit\<close> does not change what a function
  returns), with the two properties of the class.
\<close>

definition BaseTDLearningQ ::
  "('v, 'r, 'w, 'o, 'x, 'd) collab \<Rightarrow> ('v, 'w, 'z) td_learning_scheme \<Rightarrow>
     ('v, 'r, 'w, 'o transition_batch, metrics, real ndarray, 'z) concrete" where
  "BaseTDLearningQ K self =
     \<lparr>target_params = target_params_Q,
      target_function_state = target_function_state_Q,
      grads_and_metrics_func = grads_and_metrics_func_Q K self,
      td_error_func = td_error_func_Q K self\<rparr>"

section \<open>Gradients of a value loss\<close>




text \<open>
  Modelled from the spec: \<open>coax.value_losses.mse\<close>, the loss that the docstring of
  \<open>td_error\<close> and the comment in \<open>loss_func\<close> name as the one under which the TD-error is
  \<open>y - y_hat\<close>, is not among the sources. It is the mean over the batch of half the
  squared error, each sample weighted by \<open>w\<close> when weights are given; arrays of different
  lengths are refused.
\<close>

definition mse :: loss_fn where
  "mse y_true y_pred w =
     (if length (data y_true) \<noteq> length (data y_pred) then Inl TypeError
      else
        (let errs = map2 (\<lambda>t p. (p - t)\<^sup>2 / 2) (data y_true) (data y_pred);
             weighted = (case w of None \<Rightarrow> errs | Some ws \<Rightarrow> map2 (*) (data ws) errs)
         in Inr (sum_list weighted / real (length weighted))))"


section \<open>A small instance\<close>

text \<open>
  An instance to evaluate the definitions on: parameters are one array, the optimizer is
  plain gradient descent with step size one and no state of its own, the heap holds one
  function approximator at every identity, and the compiled gradient function returns a
  gradient that is fixed in advance.
\<close>

fun fl_neg :: "fl \<Rightarrow> fl" where
  "fl_neg (Finite r) = Finite (- r)"
| "fl_neg PosInf = NegInf"
| "fl_neg NegInf = PosInf"
| "fl_neg NaN = NaN"

fun fl_add :: "fl \<Rightarrow> fl \<Rightarrow> fl" where
  "fl_add NaN y = NaN"
| "fl_add x NaN = NaN"
| "fl_add PosInf NegInf = NaN"
| "fl_add NegInf PosInf = NaN"
| "fl_add PosInf y = PosInf"
| "fl_add x PosInf = PosInf"
| "fl_add NegInf y = NegInf"
| "fl_add x NegInf = NegInf"
| "fl_add (Finite a) (Finite b) = Finite (a + b)"

fun add_updates :: "grads \<Rightarrow> grads \<Rightarrow> grads" where
  "add_updates (Leaf p) (Leaf u) = Leaf \<lparr>shape = shape p, data = map2 fl_add (data p) (data u)\<rparr>"
| "add_updates p u = p"

fun descent :: "grads \<Rightarrow> grads" where
  "descent (Leaf g) = Leaf \<lparr>shape = shape g, data = map fl_neg (data g)\<rparr>"
| "descent (Node aux ts) = Node aux ts"

definition ex_sgd :: "(grads, unit) optimizer" where
  "ex_sgd = \<lparr>opt_init = (\<lambda>p. Node ''EmptyState'' []), opt_update = (\<lambda>g s p. (descent g, s))\<rparr>"

definition ex_loss :: loss_fn where
  "ex_loss y_true y_pred w = Inr 0"

definition ex_env :: "(grads, nat, unit) env" where
  "ex_env =
     \<lparr>split = (\<lambda>k. (2 * k, 2 * k + 1)),
      apply_updates = add_updates,
      adam = ex_sgd,
      huber = ex_loss,
      isinstance_Regularizer = (\<lambda>x. x = Obj 9),
      is_vfunction = (\<lambda>x. x = Obj 0 \<or> x = Obj 1),
      is_qfunction = (\<lambda>x. x = Obj 2 \<or> x = Obj 3),
      is_policy = (\<lambda>x. x = Obj 4),
      params_setter = (\<lambda>a p. Inr (a\<lparr>params := Some p\<rparr>)),
      function_state_setter = (\<lambda>a s. Inr (a\<lparr>function_state := Some s\<rparr>))\<rparr>"

definition ex_array :: "fl \<Rightarrow> grads" where
  "ex_array x = Leaf \<lparr>shape = [1], data = [x]\<rparr>"

definition ex_heap :: "(grads, nat) heap" where
  "ex_heap =
     (\<lambda>n. \<lparr>params = Some (ex_array (Finite 1)), function_state = Some (Node ''dict'' []),
           random_key = Some 1, f_attr = None, hyperparams = None\<rparr>)"

definition ex_self :: "(grads, unit) td_learning" where
  "ex_self =
     \<lparr>f_obj = Obj 0, f_targ = Obj 0, loss_function = ex_loss, policy_regularizer = PyNone,
      optimizer = ex_sgd, optimizer_state = Node ''EmptyState'' []\<rparr>"

definition ex_class :: "fl \<Rightarrow> (grads, nat, unit, unit, unit, unit, unit) concrete" where
  "ex_class x =
     \<lparr>target_params = (\<lambda>h self. Inr (\<lambda>k. None)),
      target_function_state = (\<lambda>h self. Inr (\<lambda>k. None)),
      grads_and_metrics_func = (\<lambda>p tp s ts key b. Inr (ex_array x, s, (), ())),
      td_error_func = (\<lambda>p tp s ts key b. Inr ())\<rparr>"

text \<open>The claim's condition: some entry of some gradient leaf is NaN or infinite.\<close>

definition has_nonfinite :: "grads \<Rightarrow> bool" where
  "has_nonfinite g = list_ex (\<lambda>leaf. list_ex (\<lambda>x. \<not> isfinite x) (data leaf)) (tree_leaves g)"

definition all_finite :: "grads \<Rightarrow> bool" where
  "all_finite g = list_all (\<lambda>leaf. list_all isfinite (data leaf)) (tree_leaves g)"

definition ex_momentum :: "(grads, unit) optimizer" where
  "ex_momentum =
     \<lparr>opt_init = (\<lambda>p. Node ''TraceState'' [Leaf ()]), opt_update = (\<lambda>g s p. (descent g, s))\<rparr>"

definition ex_bundle :: "grads target_bundle" where
  "ex_bundle = (\<lambda>k. None)
     (''v'' := Some (Some (ex_array (Finite 1))), ''v_targ'' := Some (Some (ex_array (Finite 1))),
      ''reg'' := Some None, ''reg_hparams'' := Some None)"

text \<open>
  An instance of the collaborators of \<open>loss_func\<close>: observations are arrays with one
  feature per sample, the value of a sample is its feature, the target is the one-step
  target \<open>Rn + In * v(S_next)\<close>, a distribution is given by its mean, the regularizer
  yields a quarter for every sample, and the gradient of the loss is the gradient of
  \<open>mse\<close> in closed form.
\<close>

definition ex_add :: "real ndarray \<Rightarrow> real ndarray \<Rightarrow> real ndarray" where
  "ex_add a b = a\<lparr>data := map2 (+) (data a) (data b)\<rparr>"

definition ex_grad_mse ::
  "loss_fn \<Rightarrow> real ndarray \<Rightarrow> real ndarray \<Rightarrow> real ndarray option \<Rightarrow> error + real ndarray" where
  "ex_grad_mse f y_true y_pred w =
     Inr (y_pred\<lparr>data :=
       map (\<lambda>i. (case w of None \<Rightarrow> 1 | Some ws \<Rightarrow> data ws ! i) *
                 (data y_pred ! i - data y_true ! i) / real (length (data y_pred)))
         [0..<length (data y_pred)]\<rparr>)"

definition ex_collab ::
  "bool \<Rightarrow> (grads, nat, unit, real ndarray, real ndarray, real ndarray) collab" where
  "ex_collab stoch =
     \<lparr>split = (\<lambda>k. (2 * k, 2 * k + 1)),
      apply_updates = add_updates,
      adam = ex_sgd,
      huber = ex_loss,
      isinstance_Regularizer = (\<lambda>x. x = Obj 9),
      is_vfunction = (\<lambda>x. x = Obj 0 \<or> x = Obj 1),
      is_qfunction = (\<lambda>x. x = Obj 2 \<or> x = Obj 3),
      is_policy = (\<lambda>x. x = Obj 4),
      params_setter = (\<lambda>a p. Inr (a\<lparr>params := Some p\<rparr>)),
      function_state_setter = (\<lambda>a s. Inr (a\<lparr>function_state := Some s\<rparr>)),
      class_name = ''TD'',
      is_stochastic = (\<lambda>x. stoch),
      observation_preprocessor = (\<lambda>x key S. S),
      action_preprocessor = (\<lambda>x key A. A),
      function_value = (\<lambda>x p s key S is_training. (S, Node ''dict'' [])),
      function_dist = (\<lambda>x p s key S is_training. (S, Node ''dict'' [])),
      function_type1_value = (\<lambda>x p s key S A is_training. (S, Node ''dict'' [])),
      function_type1_dist = (\<lambda>x p s key S A is_training. (S, Node ''dict'' [])),
      affine_transform =
        (\<lambda>x d c r. case r of Scalar z \<Rightarrow> scale c d | Arr a \<Rightarrow> ex_add (scale c d) a),
      cross_entropy = (\<lambda>x d1 d2. mul (ex_add d1 (neg d2)) (ex_add d1 (neg d2))),
      dist_mean = (\<lambda>x d. d),
      postprocess_variate = (\<lambda>x key a. a),
      batch_eval = (\<lambda>x p hp s key b. (tb_Rn b)\<lparr>data := map (\<lambda>r. 1 / 4) (data (tb_Rn b))\<rparr>),
      target_func_value = (\<lambda>tp ts key b. ex_add (tb_Rn b) (mul (tb_In b) (tb_S_next b))),
      target_func_dist = (\<lambda>tp ts key b. ex_add (tb_Rn b) (mul (tb_In b) (tb_S_next b))),
      broadcast_add = (\<lambda>a b. Inl TypeError),
      jax_grad_loss = ex_grad_mse,
      jax_grad_params = (\<lambda>f p. ex_array (Finite 0)),
      get_grads_diagnostics = (\<lambda>g pre. (\<lambda>k. None))\<rparr>"

definition vec :: "real list \<Rightarrow> real ndarray" where
  "vec xs = \<lparr>shape = [length xs], data = xs\<rparr>"

definition ex_batch :: "real ndarray \<Rightarrow> real ndarray transition_batch" where
  "ex_batch w =
     \<lparr>tb_S = vec [1 / 2, 1], tb_A = vec [0, 1], tb_Rn = vec [1, 0], tb_In = vec [1 / 2, 1 / 2],
      tb_S_next = vec [0, 6], tb_A_next = vec [1, 1], tb_Done = [False, False], tb_W = w\<rparr>"

definition ex_self_mse :: "pyobj \<Rightarrow> (grads, unit) td_learning" where
  "ex_self_mse reg =
     \<lparr>f_obj = Obj 0, f_targ = Obj 0, loss_function = mse, policy_regularizer = reg,
      optimizer = ex_sgd, optimizer_state = Node ''EmptyState'' []\<rparr>"

definition ex_targets :: "string \<Rightarrow> grads target_bundle" where
  "ex_targets k =
     (\<lambda>k. None)
       (''v'' := Some (Some (ex_array (Finite 1))), k := Some (Some (ex_array (Finite 1))),
        ''reg'' := Some None, ''reg_hparams'' := Some None)"

section \<open>The update\<close>

lemma found_nan_iff: "found_nan g = (\<exists>leaf \<in> set (tree_leaves g). NaN \<in> set (data leaf))"
  by (auto simp: found_nan_def list_ex_iff isnan_def)

lemma all_finite_no_nan: "all_finite g \<Longrightarrow> \<not> found_nan g"
  by (fastforce simp: all_finite_def found_nan_iff list_all_iff isfinite_def)

lemma rng_frame:
  "rng E h x = (res, h1) \<Longrightarrow>
     params (h1 n) = params (h n) \<and> function_state (h1 n) = function_state (h n) \<and>
     f_attr (h1 n) = f_attr (h n) \<and> hyperparams (h1 n) = hyperparams (h n)"
  by (auto simp: rng_def Let_def split: pyobj.splits option.splits prod.splits)

lemma grads_and_metrics_frame:
  "grads_and_metrics C E (h, self) b = (res, w1) \<Longrightarrow>
     \<exists>h1. w1 = (h1, self) \<and>
       (\<forall>n. params (h1 n) = params (h n) \<and> function_state (h1 n) = function_state (h n))"
  unfolding grads_and_metrics_def
  by (auto split: sum.splits prod.splits dest: rng_frame)

lemma ex_grads_and_metrics:
  "grads_and_metrics (ex_class x) ex_env (ex_heap, ex_self) () =
     (Inr (ex_array x, Node ''dict'' [], (), ()),
      (ex_heap(0 := (ex_heap 0)\<lparr>random_key := Some 2\<rparr>), ex_self))"
  by (simp add: grads_and_metrics_def ex_class_def ex_env_def ex_self_def get_params_def
      get_function_state_def attrs_of_def rng_def ex_heap_def)

lemma ex_update_from_grads:
  "update_from_grads ex_env (ex_heap(0 := (ex_heap 0)\<lparr>random_key := Some 2\<rparr>), ex_self)
     (ex_array x) (Node ''dict'' []) =
   (Inr (), (ex_heap(0 := (ex_heap 0)\<lparr>random_key := Some 2,
        params := Some (ex_array (fl_add (Finite 1) (fl_neg x)))\<rparr>), ex_self))"
  by (simp add: update_from_grads_def set_function_state_def ex_env_def get_params_def attrs_of_def
     ex_self_def apply_grads_func_def ex_sgd_def set_optimizer_state_def set_params_def ex_array_def
     ex_heap_def fun_eq_iff)

text \<open>
  C1, as the code has it. \<open>update\<close> tests the gradient leaves with \<open>jnp.isnan\<close> only. When
  \<open>grads_and_metrics\<close> returns and some gradient leaf holds a NaN, \<open>update\<close> raises
  RuntimeError in the state \<open>grads_and_metrics\<close> left: \<open>self\<close> (the optimizer and its state
  with it) is as before, and so are the parameters and the function state of every object
  of the heap. When no leaf holds a NaN (infinite entries or not), \<open>update\<close> goes on to
  \<open>update_from_grads\<close> with these gradients and this function state.
\<close>

theorem update_nan_guard:
  assumes "grads_and_metrics C E (h, self) b = (Inr (g, fs, m, td), w1)"
  shows "((\<exists>leaf \<in> set (tree_leaves g). NaN \<in> set (data leaf)) \<longrightarrow>
            update C E (h, self) b r = (Inl RuntimeError, w1) \<and>
            (\<exists>h1. w1 = (h1, self) \<and>
               (\<forall>n. params (h1 n) = params (h n) \<and> function_state (h1 n) = function_state (h n)))) \<and>
         (\<not> (\<exists>leaf \<in> set (tree_leaves g). NaN \<in> set (data leaf)) \<longrightarrow>
            update C E (h, self) b r =
              (case update_from_grads E w1 g fs of
                 (Inl e, w2) \<Rightarrow> (Inl e, w2)
               | (Inr u, w2) \<Rightarrow> (Inr (if r then (m, Some td) else (m, None)), w2)))"
  using assms grads_and_metrics_frame[OF assms]
  by (auto simp: update_def found_nan_iff)

theorem update_nan_guard_witness:
  "grads_and_metrics (ex_class NaN) ex_env (ex_heap, ex_self) () =
     (Inr (ex_array NaN, Node ''dict'' [], (), ()),
      (ex_heap(0 := (ex_heap 0)\<lparr>random_key := Some 2\<rparr>), ex_self)) \<and>
   (\<exists>leaf \<in> set (tree_leaves (ex_array NaN)). NaN \<in> set (data leaf)) \<and>
   update (ex_class NaN) ex_env (ex_heap, ex_self) () False =
     (Inl RuntimeError, (ex_heap(0 := (ex_heap 0)\<lparr>random_key := Some 2\<rparr>), ex_self)) \<and>
   params ((ex_heap(0 := (ex_heap 0)\<lparr>random_key := Some 2\<rparr>)) 0) = params (ex_heap 0)"
  using update_nan_guard[OF ex_grads_and_metrics[of NaN], of False] ex_grads_and_metrics[of NaN]
  by (simp add: ex_array_def)

text \<open>
  C1 as stated fails on an infinite gradient: with the gradient \<open>[+inf]\<close>, which is not
  finite, \<open>update\<close> returns normally and the parameters of the online function go from
  \<open>[1]\<close> to \<open>[-inf]\<close>.
\<close>

theorem update_inf_counterexample:
  "has_nonfinite (ex_array PosInf) \<and>
   fst (grads_and_metrics (ex_class PosInf) ex_env (ex_heap, ex_self) ()) =
     Inr (ex_array PosInf, Node ''dict'' [], (), ()) \<and>
   fst (update (ex_class PosInf) ex_env (ex_heap, ex_self) () False) = Inr ((), None) \<and>
   get_params ex_heap (Obj 0) = Inr (ex_array (Finite 1)) \<and>
   get_params (fst (snd (update (ex_class PosInf) ex_env (ex_heap, ex_self) () False))) (Obj 0) =
     Inr (ex_array NegInf)"
proof -
  have nan: "\<not> found_nan (ex_array PosInf)"
    by (simp add: found_nan_def ex_array_def isnan_def)
  have upd: "update (ex_class PosInf) ex_env (ex_heap, ex_self) () False =
     (Inr ((), None), (ex_heap(0 := (ex_heap 0)\<lparr>random_key := Some 2,
        params := Some (ex_array NegInf)\<rparr>), ex_self))"
    by (simp add: update_def ex_grads_and_metrics nan ex_update_from_grads)
  have inf: "has_nonfinite (ex_array PosInf)"
    by (simp add: has_nonfinite_def isfinite_def ex_array_def)
  have before: "get_params ex_heap (Obj 0) = Inr (ex_array (Finite 1))"
    by (simp add: get_params_def attrs_of_def ex_heap_def)
  have after: "get_params (ex_heap(0 := (ex_heap 0)\<lparr>random_key := Some 2,
        params := Some (ex_array NegInf)\<rparr>)) (Obj 0) = Inr (ex_array NegInf)"
    by (simp add: get_params_def attrs_of_def)
  show ?thesis
    unfolding upd using inf before after by (simp add: ex_grads_and_metrics)
qed

text \<open>
  C2. When \<open>grads_and_metrics\<close> returns gradients whose entries are all finite, \<open>update\<close>
  ends in the very state in which \<open>update_from_grads\<close>, run on these gradients and this
  function state after \<open>grads_and_metrics\<close>, ends (heap and \<open>self\<close>: the parameters, the
  optimizer state and the function state among them), and it raises exactly when
  \<open>update_from_grads\<close> does.
\<close>

theorem update_split_equivalence:
  assumes "grads_and_metrics C E w b = (Inr (g, fs, m, td), w1)" and "all_finite g"
  shows "snd (update C E w b r) = snd (update_from_grads E w1 g fs) \<and>
         isl (fst (update C E w b r)) = isl (fst (update_from_grads E w1 g fs))"
  using assms all_finite_no_nan[OF assms(2)]
  by (auto simp: update_def split: prod.splits sum.splits)

theorem update_split_equivalence_witness:
  "grads_and_metrics (ex_class (Finite 3)) ex_env (ex_heap, ex_self) () =
     (Inr (ex_array (Finite 3), Node ''dict'' [], (), ()),
      (ex_heap(0 := (ex_heap 0)\<lparr>random_key := Some 2\<rparr>), ex_self)) \<and>
   all_finite (ex_array (Finite 3)) \<and>
   snd (update (ex_class (Finite 3)) ex_env (ex_heap, ex_self) () False) =
     (ex_heap(0 := (ex_heap 0)\<lparr>random_key := Some 2,
        params := Some (ex_array (Finite (- 2)))\<rparr>), ex_self) \<and>
   \<not> isl (fst (update (ex_class (Finite 3)) ex_env (ex_heap, ex_self) () False))"
proof -
  have fin: "all_finite (ex_array (Finite 3))"
    by (simp add: all_finite_def ex_array_def isfinite_def)
  show ?thesis
    using update_split_equivalence[OF ex_grads_and_metrics[of "Finite 3"] fin, of False] fin
    by (simp add: ex_grads_and_metrics ex_update_from_grads)
qed

section \<open>The optimizer properties\<close>

text \<open>
  C9. For an updater whose online function has parameters: assigning to \<open>optimizer\<close>
  raises (AttributeError) exactly when the structure of the new optimizer's state,
  initialised on the online parameters, differs from the structure of the current
  optimizer state; assigning to \<open>optimizer_state\<close> raises (AttributeError) exactly when
  the new state's structure differs from the current one's. An assignment that raises
  leaves heap and \<open>self\<close> as they were; one that does not stores the new value and
  changes nothing else.
\<close>

theorem optimizer_setters:
  assumes "get_params h (f_obj self) = Inr p"
  shows "(isl (fst (set_optimizer (h, self) new_optimizer)) \<longleftrightarrow>
            tree_structure (opt_init new_optimizer p) \<noteq> tree_structure (optimizer_state self)) \<and>
         (isl (fst (set_optimizer_state (h, self) new_state)) \<longleftrightarrow>
            tree_structure new_state \<noteq> tree_structure (optimizer_state self)) \<and>
         set_optimizer (h, self) new_optimizer =
           (if isl (fst (set_optimizer (h, self) new_optimizer)) then (Inl AttributeError, (h, self))
            else (Inr (), (h, self\<lparr>optimizer := new_optimizer\<rparr>))) \<and>
         set_optimizer_state (h, self) new_state =
           (if isl (fst (set_optimizer_state (h, self) new_state))
            then (Inl AttributeError, (h, self))
            else (Inr (), (h, self\<lparr>optimizer_state := new_state\<rparr>)))"
  using assms by (simp add: set_optimizer_def set_optimizer_state_def)

theorem optimizer_setters_witness:
  "get_params ex_heap (f_obj ex_self) = Inr (ex_array (Finite 1)) \<and>
   isl (fst (set_optimizer (ex_heap, ex_self) ex_momentum)) \<and>
   \<not> isl (fst (set_optimizer_state (ex_heap, ex_self) (Node ''EmptyState'' []))) \<and>
   set_optimizer (ex_heap, ex_self) ex_momentum = (Inl AttributeError, (ex_heap, ex_self))"
proof -
  have p: "get_params ex_heap (f_obj ex_self) = Inr (ex_array (Finite 1))"
    by (simp add: get_params_def attrs_of_def ex_heap_def ex_self_def)
  have d: "tree_structure (opt_init ex_momentum (ex_array (Finite 1))) \<noteq>
           tree_structure (optimizer_state ex_self)"
    by (simp add: ex_momentum_def ex_self_def)
  have s: "tree_structure (Node ''EmptyState'' []) = tree_structure (optimizer_state ex_self)"
    by (simp add: ex_self_def)
  show ?thesis
    using optimizer_setters[OF p, of ex_momentum "Node ''EmptyState'' []"] p d s
    by auto
qed

section \<open>Construction\<close>

text \<open>
  C8. A constructor raises TypeError exactly when a check on the kind of an argument
  fails: \<open>BaseTDLearning\<close> when \<open>policy_regularizer\<close> is neither None nor a Regularizer;
  \<open>BaseTDLearningV\<close> when moreover \<open>v\<close> is not a v-function or \<open>v_targ\<close> is neither None nor
  a v-function; \<open>BaseTDLearningQ\<close> when \<open>q\<close> is not a q-function, or \<open>q_targ\<close> is neither
  None, a list, a tuple nor a q-function, or the regularizer is refused;
  \<open>BaseTDLearningQWithTargetPolicy\<close> when moreover \<open>pi_targ\<close> is neither None nor a policy.
  Whatever the outcome, the heap (the parameters of every function among it) is as it
  was before the call.
\<close>

theorem constructor_type_errors:
  "(fst (BaseTDLearning_init E h f f_targ_arg opt loss reg) = Inl TypeError \<longleftrightarrow>
      \<not> (reg = PyNone \<or> isinstance_Regularizer E reg)) \<and>
   (fst (BaseTDLearningV_init E h v v_targ opt loss reg) = Inl TypeError \<longleftrightarrow>
      \<not> is_vfunction E v \<or> (v_targ \<noteq> PyNone \<and> \<not> is_vfunction E v_targ) \<or>
      \<not> (reg = PyNone \<or> isinstance_Regularizer E reg)) \<and>
   (fst (BaseTDLearningQ_init E h q q_targ opt loss reg) = Inl TypeError \<longleftrightarrow>
      \<not> is_qfunction E q \<or>
      (q_targ \<noteq> PyNone \<and> \<not> isinstance_list_tuple q_targ \<and> \<not> is_qfunction E q_targ) \<or>
      \<not> (reg = PyNone \<or> isinstance_Regularizer E reg)) \<and>
   (fst (BaseTDLearningQWithTargetPolicy_init E h q pi_targ_arg q_targ opt loss reg) = Inl TypeError \<longleftrightarrow>
      (pi_targ_arg \<noteq> PyNone \<and> \<not> is_policy E pi_targ_arg) \<or>
      \<not> is_qfunction E q \<or>
      (q_targ \<noteq> PyNone \<and> \<not> isinstance_list_tuple q_targ \<and> \<not> is_qfunction E q_targ) \<or>
      \<not> (reg = PyNone \<or> isinstance_Regularizer E reg)) \<and>
   snd (BaseTDLearning_init E h f f_targ_arg opt loss reg) = h \<and>
   snd (BaseTDLearningV_init E h v v_targ opt loss reg) = h \<and>
   snd (BaseTDLearningQ_init E h q q_targ opt loss reg) = h \<and>
   snd (BaseTDLearningQWithTargetPolicy_init E h q pi_targ_arg q_targ opt loss reg) = h"
proof -
  have base: "\<And>f t. fst (BaseTDLearning_init E h f t opt loss reg) = Inl TypeError \<longleftrightarrow>
      \<not> (reg = PyNone \<or> isinstance_Regularizer E reg)"
    by (auto simp: BaseTDLearning_init_def Let_def get_params_def split: option.splits sum.splits)
  have base_h: "\<And>f t. snd (BaseTDLearning_init E h f t opt loss reg) = h"
    by (auto simp: BaseTDLearning_init_def Let_def split: sum.splits)
  have vq: "fst (BaseTDLearningV_init E h v v_targ opt loss reg) = Inl TypeError \<longleftrightarrow>
      \<not> is_vfunction E v \<or> (v_targ \<noteq> PyNone \<and> \<not> is_vfunction E v_targ) \<or>
      \<not> (reg = PyNone \<or> isinstance_Regularizer E reg)"
    using base by (auto simp: BaseTDLearningV_init_def)
  have qq: "fst (BaseTDLearningQ_init E h q q_targ opt loss reg) = Inl TypeError \<longleftrightarrow>
      \<not> is_qfunction E q \<or>
      (q_targ \<noteq> PyNone \<and> \<not> isinstance_list_tuple q_targ \<and> \<not> is_qfunction E q_targ) \<or>
      \<not> (reg = PyNone \<or> isinstance_Regularizer E reg)"
    using base by (auto simp: BaseTDLearningQ_init_def)
  have q_h: "snd (BaseTDLearningQ_init E h q q_targ opt loss reg) = h"
    using base_h by (auto simp: BaseTDLearningQ_init_def)
  have pq: "fst (BaseTDLearningQWithTargetPolicy_init E h q pi_targ_arg q_targ opt loss reg) = Inl TypeError \<longleftrightarrow>
      (pi_targ_arg \<noteq> PyNone \<and> \<not> is_policy E pi_targ_arg) \<or>
      fst (BaseTDLearningQ_init E h q q_targ opt loss reg) = Inl TypeError"
    by (auto simp: BaseTDLearningQWithTargetPolicy_init_def split: prod.splits sum.splits)
  have p_h: "snd (BaseTDLearningQWithTargetPolicy_init E h q pi_targ_arg q_targ opt loss reg) = h"
    using q_h by (auto simp: BaseTDLearningQWithTargetPolicy_init_def split: prod.splits sum.splits)
  show ?thesis
    using base base_h vq qq q_h pq p_h by (simp add: BaseTDLearningV_init_def)
qed


theorem constructor_type_errors_witness:
  "fst (BaseTDLearningV_init ex_env ex_heap (Obj 2) PyNone None None PyNone) = Inl TypeError \<and>
   fst (BaseTDLearningV_init ex_env ex_heap (Obj 0) PyNone None None PyNone) \<noteq> Inl TypeError \<and>
   fst (BaseTDLearningQ_init ex_env ex_heap (Obj 2) (Obj 0) None None PyNone) = Inl TypeError \<and>
   fst (BaseTDLearningQWithTargetPolicy_init ex_env ex_heap (Obj 2) (Obj 0) PyNone None None PyNone)
     = Inl TypeError \<and>
   fst (BaseTDLearning_init ex_env ex_heap (Obj 0) PyNone None None (Obj 5)) = Inl TypeError \<and>
   snd (BaseTDLearningV_init ex_env ex_heap (Obj 2) PyNone None None PyNone) = ex_heap"
  using constructor_type_errors[of ex_env ex_heap "Obj 0" PyNone None None "Obj 5" "Obj 2" PyNone]
    constructor_type_errors[of ex_env ex_heap "Obj 0" PyNone None None PyNone "Obj 0" PyNone
      "Obj 2" "Obj 0" "Obj 0"]
    constructor_type_errors[of ex_env ex_heap "Obj 0" PyNone None None PyNone "Obj 2" PyNone
      "Obj 2" PyNone "Obj 0"]
  by (simp add: ex_env_def)

text \<open>
  C10. With a q-function \<open>q\<close> that has parameters and an acceptable regularizer, the
  constructor of \<open>BaseTDLearningQ\<close> returns an updater when \<open>q_targ\<close> is a list or a tuple
  (stored as the target as it is), when it is None (the online function \<open>q\<close> itself is
  then stored as the target) and when it is a q-function; for any other object it raises
  TypeError.
\<close>

theorem q_targ_list_or_tuple:
  assumes "is_qfunction E q" and "reg = PyNone \<or> isinstance_Regularizer E reg"
    and "get_params h q = Inr p"
  shows "(\<exists>self. BaseTDLearningQ_init E h q (PyList xs) opt loss reg = (Inr self, h) \<and>
            f_obj self = q \<and> f_targ self = PyList xs) \<and>
         (\<exists>self. BaseTDLearningQ_init E h q (PyTuple xs) opt loss reg = (Inr self, h) \<and>
            f_obj self = q \<and> f_targ self = PyTuple xs) \<and>
         (\<exists>self. BaseTDLearningQ_init E h q PyNone opt loss reg = (Inr self, h) \<and>
            f_obj self = q \<and> f_targ self = q) \<and>
         (if is_qfunction E (Obj n)
          then (\<exists>self. BaseTDLearningQ_init E h q (Obj n) opt loss reg = (Inr self, h) \<and>
                  f_obj self = q \<and> f_targ self = Obj n)
          else BaseTDLearningQ_init E h q (Obj n) opt loss reg = (Inl TypeError, h))"
  using assms
  by (auto simp: BaseTDLearningQ_init_def BaseTDLearning_init_def Let_def)

theorem q_targ_list_or_tuple_witness:
  "is_qfunction ex_env (Obj 2) \<and> get_params ex_heap (Obj 2) = Inr (ex_array (Finite 1)) \<and>
   fst (BaseTDLearningQ_init ex_env ex_heap (Obj 2) (PyList [Obj 2, Obj 3]) None None PyNone) =
     Inr (ex_self\<lparr>f_obj := Obj 2, f_targ := PyList [Obj 2, Obj 3]\<rparr>) \<and>
   fst (BaseTDLearningQ_init ex_env ex_heap (Obj 2) (PyTuple [Obj 2, Obj 3]) None None PyNone) =
     Inr (ex_self\<lparr>f_obj := Obj 2, f_targ := PyTuple [Obj 2, Obj 3]\<rparr>) \<and>
   fst (BaseTDLearningQ_init ex_env ex_heap (Obj 2) PyNone None None PyNone) =
     Inr (ex_self\<lparr>f_obj := Obj 2, f_targ := Obj 2\<rparr>) \<and>
   BaseTDLearningQ_init ex_env ex_heap (Obj 2) (Obj 0) None None PyNone = (Inl TypeError, ex_heap)"
proof -
  have q: "is_qfunction ex_env (Obj 2)" by (simp add: ex_env_def)
  have p: "get_params ex_heap (Obj 2) = Inr (ex_array (Finite 1))"
    by (simp add: get_params_def attrs_of_def ex_heap_def)
  have n: "\<not> is_qfunction ex_env (Obj 0)" by (simp add: ex_env_def)
  have e: "BaseTDLearningQ_init ex_env ex_heap (Obj 2) (Obj 0) None None PyNone = (Inl TypeError, ex_heap)"
    using q_targ_list_or_tuple[OF q _ p, of PyNone "[]" None None 0] n by simp
  have l: "fst (BaseTDLearningQ_init ex_env ex_heap (Obj 2) (PyList [Obj 2, Obj 3]) None None PyNone) =
     Inr (ex_self\<lparr>f_obj := Obj 2, f_targ := PyList [Obj 2, Obj 3]\<rparr>)"
    using p by (simp add: BaseTDLearningQ_init_def BaseTDLearning_init_def ex_env_def ex_self_def ex_sgd_def)
  have t: "fst (BaseTDLearningQ_init ex_env ex_heap (Obj 2) (PyTuple [Obj 2, Obj 3]) None None PyNone) =
     Inr (ex_self\<lparr>f_obj := Obj 2, f_targ := PyTuple [Obj 2, Obj 3]\<rparr>)"
    using p by (simp add: BaseTDLearningQ_init_def BaseTDLearning_init_def ex_env_def ex_self_def ex_sgd_def)
  have o: "fst (BaseTDLearningQ_init ex_env ex_heap (Obj 2) PyNone None None PyNone) =
     Inr (ex_self\<lparr>f_obj := Obj 2, f_targ := Obj 2\<rparr>)"
    using p by (simp add: BaseTDLearningQ_init_def BaseTDLearning_init_def ex_env_def ex_self_def ex_sgd_def)
  show ?thesis using q p e l t o by simp
qed


section \<open>The target parameter bundle\<close>

lemma init_regularizer:
  "BaseTDLearning_init E h f t opt loss reg = (Inr self, h1) \<Longrightarrow> policy_regularizer self = reg"
  by (auto simp: BaseTDLearning_init_def Let_def split: if_splits sum.splits)

lemma init_regularizer_V:
  "BaseTDLearningV_init E h f t opt loss reg = (Inr self, h1) \<Longrightarrow> policy_regularizer self = reg"
  by (auto simp: BaseTDLearningV_init_def split: if_splits dest: init_regularizer)

lemma init_regularizer_Q:
  "BaseTDLearningQ_init E h f t opt loss reg = (Inr self, h1) \<Longrightarrow> policy_regularizer self = reg"
  by (auto simp: BaseTDLearningQ_init_def split: if_splits dest: init_regularizer)

lemma init_regularizer_QWithTargetPolicy:
  "BaseTDLearningQWithTargetPolicy_init E h f pt t opt loss reg = (Inr self, h1) \<Longrightarrow>
     policy_regularizer self = reg"
  by (auto simp: BaseTDLearningQWithTargetPolicy_init_def split: if_splits prod.splits sum.splits
      dest: init_regularizer_Q)

lemma getattr_PyNone:
  "getattr_f h PyNone = PyNone" "getattr_params h PyNone = None"
  "getattr_hyperparams h PyNone = None" "getattr_function_state h PyNone = None"
  by (simp_all add: getattr_f_def getattr_params_def getattr_hyperparams_def
      getattr_function_state_def attrs_of_def)

text \<open>
  C6, as the code has it. The bundle that \<open>target_params\<close> returns for an updater
  constructed without a policy regularizer has the keys \<open>reg\<close> and \<open>reg_hparams\<close>, both
  with the value None: the dict display names them whether a regularizer is configured
  or not, and \<open>getattr\<close> with the default None supplies their values.
\<close>

theorem target_params_reg_entry:
  "(BaseTDLearningV_init E h0 v v_targ opt loss PyNone = (Inr self, h1) \<and>
      target_params_V h self = Inr m \<longrightarrow>
        m ''reg'' = Some None \<and> m ''reg_hparams'' = Some None \<and>
        dom m = {''v'', ''v_targ'', ''reg'', ''reg_hparams''}) \<and>
   (BaseTDLearningQ_init E h0 q q_targ opt loss PyNone = (Inr self, h1) \<and>
      target_params_Q h self = Inr m \<longrightarrow>
        m ''reg'' = Some None \<and> m ''reg_hparams'' = Some None \<and>
        dom m = {''q'', ''q_targ'', ''reg'', ''reg_hparams''}) \<and>
   (BaseTDLearningQWithTargetPolicy_init E h0 q pi_targ_arg q_targ opt loss PyNone = (Inr self_pi, h1) \<and>
      target_params_QWithTargetPolicy h self_pi = Inr m \<longrightarrow>
        m ''reg'' = Some None \<and> m ''reg_hparams'' = Some None \<and>
        dom m = {''q'', ''q_targ'', ''pi_targ'', ''reg'', ''reg_hparams''})"
proof (intro conjI impI)
  assume a: "BaseTDLearningV_init E h0 v v_targ opt loss PyNone = (Inr self, h1) \<and>
      target_params_V h self = Inr m"
  then have r: "policy_regularizer self = PyNone" by (auto dest: init_regularizer_V)
  from a have m: "target_params_V h self = Inr m" by simp
  show "m ''reg'' = Some None" "m ''reg_hparams'' = Some None"
    "dom m = {''v'', ''v_targ'', ''reg'', ''reg_hparams''}"
    using m r
    by (auto simp: target_params_V_def to_immutable_dict_def getattr_PyNone dom_def
        split: sum.splits if_splits)
next
  assume a: "BaseTDLearningQ_init E h0 q q_targ opt loss PyNone = (Inr self, h1) \<and>
      target_params_Q h self = Inr m"
  then have r: "policy_regularizer self = PyNone" by (auto dest: init_regularizer_Q)
  from a have m: "target_params_Q h self = Inr m" by simp
  show "m ''reg'' = Some None" "m ''reg_hparams'' = Some None"
    "dom m = {''q'', ''q_targ'', ''reg'', ''reg_hparams''}"
    using m r
    by (auto simp: target_params_Q_def to_immutable_dict_def getattr_PyNone dom_def
        split: sum.splits if_splits)
next
  assume a: "BaseTDLearningQWithTargetPolicy_init E h0 q pi_targ_arg q_targ opt loss PyNone = (Inr self_pi, h1) \<and>
      target_params_QWithTargetPolicy h self_pi = Inr m"
  then have r: "policy_regularizer self_pi = PyNone" by (auto dest: init_regularizer_QWithTargetPolicy)
  from a have m: "target_params_QWithTargetPolicy h self_pi = Inr m" by simp
  show "m ''reg'' = Some None" "m ''reg_hparams'' = Some None"
    "dom m = {''q'', ''q_targ'', ''pi_targ'', ''reg'', ''reg_hparams''}"
    using m r
    by (auto simp: target_params_QWithTargetPolicy_def to_immutable_dict_def getattr_PyNone dom_def
        split: sum.splits if_splits)
qed

lemma ex_V_init:
  "BaseTDLearningV_init ex_env ex_heap (Obj 0) PyNone None None PyNone = (Inr ex_self, ex_heap)"
  by (simp add: BaseTDLearningV_init_def BaseTDLearning_init_def ex_env_def ex_self_def ex_sgd_def
      get_params_def attrs_of_def ex_heap_def)

lemma ex_target_params_V: "target_params_V ex_heap ex_self = Inr ex_bundle"
  by (simp add: target_params_V_def get_params_def attrs_of_def ex_heap_def ex_self_def
      to_immutable_dict_def getattr_PyNone ex_bundle_def)

theorem target_params_reg_entry_witness:
  "BaseTDLearningV_init ex_env ex_heap (Obj 0) PyNone None None PyNone = (Inr ex_self, ex_heap) \<and>
   target_params_V ex_heap ex_self = Inr ex_bundle \<and>
   ex_bundle ''reg'' = Some None \<and> ex_bundle ''reg_hparams'' = Some None \<and>
   dom ex_bundle = {''v'', ''v_targ'', ''reg'', ''reg_hparams''}"
  using target_params_reg_entry[of ex_env ex_heap "Obj 0" PyNone None None ex_self ex_heap ex_heap ex_bundle]
    ex_V_init ex_target_params_V
  by simp

text \<open>
  C6 as stated fails: the bundle of an updater constructed without a regularizer has a
  \<open>reg\<close> entry.
\<close>

theorem target_params_reg_key_counterexample:
  "fst (BaseTDLearningV_init ex_env ex_heap (Obj 0) PyNone None None PyNone) = Inr ex_self \<and>
   policy_regularizer ex_self = PyNone \<and>
   target_params_V ex_heap ex_self = Inr ex_bundle \<and>
   ''reg'' \<in> dom ex_bundle"
  by (simp add: ex_V_init ex_target_params_V) (simp add: ex_self_def ex_bundle_def)

section \<open>The loss function\<close>

lemma asserts_pass_iff:
  "(assert_equal_shape [G, V, V_targ, W] = Inr () \<and> assert_rank [G, V, V_targ, W] 1 = Inr ()) \<longleftrightarrow>
   (shape V = shape G \<and> shape V_targ = shape G \<and> shape W = shape G \<and> length (shape G) = 1)"
  by (auto simp: assert_equal_shape_def assert_rank_def)

























lemma clip_entry_eq:
  fixes x y :: real
  assumes "x = y \<or> (10 \<le> x \<and> 10 \<le> y) \<or> (x \<le> 1 / 10 \<and> y \<le> 1 / 10)"
  shows "min 10 (max (1 / 10) x) = min 10 (max (1 / 10) y)"
  using assms by (auto simp: min_def max_def)

lemma jnp_clip_eq:
  fixes w1 w2 :: "real ndarray"
  assumes "shape w2 = shape w1" and "length (data w2) = length (data w1)"
    and "\<forall>i < length (data w1). data w2 ! i = data w1 ! i \<or>
           (10 \<le> data w2 ! i \<and> 10 \<le> data w1 ! i) \<or>
           (data w2 ! i \<le> 1 / 10 \<and> data w1 ! i \<le> 1 / 10)"
  shows "jnp_clip w2 (1 / 10) 10 = jnp_clip w1 (1 / 10) 10"
proof -
  have "map (\<lambda>x. min 10 (max (1 / 10) x)) (data w2) = map (\<lambda>x. min 10 (max (1 / 10) x)) (data w1)"
    using assms(2,3) by (auto intro!: nth_equalityI clip_entry_eq)
  then show ?thesis
    using assms(1) by (cases w1, cases w2) (simp add: jnp_clip_def)
qed

lemma jnp_clip_bounds:
  "x \<in> set (data (jnp_clip w (1 / 10) 10)) \<Longrightarrow> 1 / 10 \<le> x \<and> x \<le> 10"
  by (auto simp: jnp_clip_def)

lemma predict_and_target_V_W:
  "predict_and_target_V K self p tp s ts k b = Inr (l, G, V, V_targ, W, s') \<Longrightarrow>
     W = jnp_clip (tb_W b) (1 / 10) 10"
  by (auto simp: predict_and_target_V_def Let_def split: prod.splits sum.splits if_splits)


lemma predict_and_target_Q_W:
  "predict_and_target_Q K self p tp s ts k b = Inr (l, G, V, V_targ, W, s') \<Longrightarrow>
     W = jnp_clip (tb_W b) (1 / 10) 10"
  by (auto simp: predict_and_target_Q_def Let_def split: prod.splits sum.splits if_splits)

lemma regularization_term_W:
  assumes "\<forall>x rp rh rs key. batch_eval K x rp rh rs key (b\<lparr>tb_W := w2\<rparr>) = batch_eval K x rp rh rs key b"
  shows "regularization_term K self tp ts r (b\<lparr>tb_W := w2\<rparr>) = regularization_term K self tp ts r b"
  using assms by (simp add: regularization_term_def Let_def cong: sum.case_cong prod.case_cong)

lemma predict_and_target_V_clip:
  assumes c: "jnp_clip w2 (1 / 10) 10 = jnp_clip (tb_W b) (1 / 10) 10"
    and tv: "\<forall>tp ts key. target_func_value K tp ts key (b\<lparr>tb_W := w2\<rparr>) = target_func_value K tp ts key b"
    and td: "\<forall>tp ts key. target_func_dist K tp ts key (b\<lparr>tb_W := w2\<rparr>) = target_func_dist K tp ts key b"
    and be: "\<forall>x rp rh rs key. batch_eval K x rp rh rs key (b\<lparr>tb_W := w2\<rparr>) = batch_eval K x rp rh rs key b"
  shows "predict_and_target_V K self p tp s ts k (b\<lparr>tb_W := w2\<rparr>) =
         predict_and_target_V K self p tp s ts k b"
  unfolding predict_and_target_V_def
  by (simp add: regularization_term_W[OF be] c tv td Let_def
      cong: sum.case_cong prod.case_cong if_cong)

lemma predict_and_target_Q_clip:
  assumes c: "jnp_clip w2 (1 / 10) 10 = jnp_clip (tb_W b) (1 / 10) 10"
    and tv: "\<forall>tp ts key. target_func_value K tp ts key (b\<lparr>tb_W := w2\<rparr>) = target_func_value K tp ts key b"
    and td: "\<forall>tp ts key. target_func_dist K tp ts key (b\<lparr>tb_W := w2\<rparr>) = target_func_dist K tp ts key b"
    and be: "\<forall>x rp rh rs key. batch_eval K x rp rh rs key (b\<lparr>tb_W := w2\<rparr>) = batch_eval K x rp rh rs key b"
  shows "predict_and_target_Q K self p tp s ts k (b\<lparr>tb_W := w2\<rparr>) =
         predict_and_target_Q K self p tp s ts k b"
  unfolding predict_and_target_Q_def
  by (simp add: regularization_term_W[OF be] c tv td Let_def
      cong: sum.case_cong prod.case_cong if_cong)

text \<open>
  C4. The weights that enter the loss are \<open>jnp.clip(W, 0.1, 10)\<close>: every entry lies in
  \<open>[0.1, 10]\<close>. Replace the weights of a batch by weights of the same shape that differ
  only where both the old and the new entry are at least 10, or both at most 0.1. If the
  collaborators that are handed the batch itself (\<open>target_func\<close> and the regularizer's
  \<open>batch_eval\<close>) do not depend on its weights, then \<open>loss_func\<close> returns the same loss,
  TD-error, state and metrics for both batches, and \<open>grads_and_metrics_func\<close> the same
  gradients, for \<open>BaseTDLearningV\<close> and \<open>BaseTDLearningQ\<close>.
\<close>

theorem importance_weights_clipped:
  assumes sh: "shape w2 = shape (tb_W b)" and len: "length (data w2) = length (data (tb_W b))"
    and out: "\<forall>i < length (data (tb_W b)). data w2 ! i = data (tb_W b) ! i \<or>
           (10 \<le> data w2 ! i \<and> 10 \<le> data (tb_W b) ! i) \<or>
           (data w2 ! i \<le> 1 / 10 \<and> data (tb_W b) ! i \<le> 1 / 10)"
    and tv: "\<forall>tp ts key. target_func_value K tp ts key (b\<lparr>tb_W := w2\<rparr>) = target_func_value K tp ts key b"
    and td: "\<forall>tp ts key. target_func_dist K tp ts key (b\<lparr>tb_W := w2\<rparr>) = target_func_dist K tp ts key b"
    and be: "\<forall>x rp rh rs key. batch_eval K x rp rh rs key (b\<lparr>tb_W := w2\<rparr>) = batch_eval K x rp rh rs key b"
  shows "(predict_and_target_V K self p tp s ts k b = Inr (l, G, V, V_targ, W, s') \<or>
          predict_and_target_Q K self p tp s ts k b = Inr (l, G, V, V_targ, W, s') \<longrightarrow>
            W = jnp_clip (tb_W b) (1 / 10) 10 \<and> (\<forall>x \<in> set (data W). 1 / 10 \<le> x \<and> x \<le> 10)) \<and>
         loss_func_V K self p tp s ts k (b\<lparr>tb_W := w2\<rparr>) = loss_func_V K self p tp s ts k b \<and>
         loss_func_Q K self p tp s ts k (b\<lparr>tb_W := w2\<rparr>) = loss_func_Q K self p tp s ts k b \<and>
         grads_and_metrics_func_V K self p tp s ts k (b\<lparr>tb_W := w2\<rparr>) =
           grads_and_metrics_func_V K self p tp s ts k b \<and>
         grads_and_metrics_func_Q K self p tp s ts k (b\<lparr>tb_W := w2\<rparr>) =
           grads_and_metrics_func_Q K self p tp s ts k b"
proof -
  have c: "jnp_clip w2 (1 / 10) 10 = jnp_clip (tb_W b) (1 / 10) 10"
    by (rule jnp_clip_eq[OF sh len out])
  have lv: "\<And>p k. loss_func_V K self p tp s ts k (b\<lparr>tb_W := w2\<rparr>) = loss_func_V K self p tp s ts k b"
    by (simp add: loss_func_V_def predict_and_target_V_clip[OF c tv td be])
  have lq: "\<And>p k. loss_func_Q K self p tp s ts k (b\<lparr>tb_W := w2\<rparr>) = loss_func_Q K self p tp s ts k b"
    by (simp add: loss_func_Q_def predict_and_target_Q_clip[OF c tv td be])
  have gv: "grads_and_metrics_func_V K self p tp s ts k (b\<lparr>tb_W := w2\<rparr>) =
           grads_and_metrics_func_V K self p tp s ts k b"
    by (simp add: grads_and_metrics_func_V_def lv Let_def cong: sum.case_cong prod.case_cong)
  have gq: "grads_and_metrics_func_Q K self p tp s ts k (b\<lparr>tb_W := w2\<rparr>) =
           grads_and_metrics_func_Q K self p tp s ts k b"
    by (simp add: grads_and_metrics_func_Q_def lq Let_def cong: sum.case_cong prod.case_cong)
  have w: "predict_and_target_V K self p tp s ts k b = Inr (l, G, V, V_targ, W, s') \<or>
          predict_and_target_Q K self p tp s ts k b = Inr (l, G, V, V_targ, W, s') \<longrightarrow>
            W = jnp_clip (tb_W b) (1 / 10) 10 \<and> (\<forall>x \<in> set (data W). 1 / 10 \<le> x \<and> x \<le> 10)"
    using predict_and_target_V_W[of K self p tp s ts k b l G V V_targ W s']
      predict_and_target_Q_W[of K self p tp s ts k b l G V V_targ W s']
      jnp_clip_bounds[of _ "tb_W b"]
    by blast
  show ?thesis by (intro conjI w lv lq gv gq)
qed


theorem importance_weights_clipped_witness:
  "jnp_clip (vec [100, 1 / 1000]) (1 / 10) 10 = vec [10, 1 / 10] \<and>
   jnp_clip (vec [50, 1 / 100]) (1 / 10) 10 = vec [10, 1 / 10] \<and>
   loss_func_V (ex_collab False) (ex_self_mse PyNone) (ex_array (Finite 1)) (ex_targets ''v_targ'')
       (Node ''dict'' []) (ex_targets ''v_targ'') 1 ((ex_batch (vec [100, 1 / 1000]))\<lparr>tb_W := vec [50, 1 / 100]\<rparr>) =
     loss_func_V (ex_collab False) (ex_self_mse PyNone) (ex_array (Finite 1)) (ex_targets ''v_targ'')
       (Node ''dict'' []) (ex_targets ''v_targ'') 1 (ex_batch (vec [100, 1 / 1000])) \<and>
   grads_and_metrics_func_V (ex_collab False) (ex_self_mse PyNone) (ex_array (Finite 1))
       (ex_targets ''v_targ'') (Node ''dict'' []) (ex_targets ''v_targ'') 1
       ((ex_batch (vec [100, 1 / 1000]))\<lparr>tb_W := vec [50, 1 / 100]\<rparr>) =
     grads_and_metrics_func_V (ex_collab False) (ex_self_mse PyNone) (ex_array (Finite 1))
       (ex_targets ''v_targ'') (Node ''dict'' []) (ex_targets ''v_targ'') 1
       (ex_batch (vec [100, 1 / 1000]))"
proof -
  have w: "\<And>x. tb_W (ex_batch x) = x"
    by (simp add: ex_batch_def)
  have sh: "shape (vec [50, 1 / 100]) = shape (tb_W (ex_batch (vec [100, 1 / 1000])))"
    and len: "length (data (vec [50, 1 / 100])) = length (data (tb_W (ex_batch (vec [100, 1 / 1000]))))"
    by (simp_all add: w vec_def)
  have out: "\<forall>i < length (data (tb_W (ex_batch (vec [100, 1 / 1000])))).
       data (vec [50, 1 / 100]) ! i = data (tb_W (ex_batch (vec [100, 1 / 1000]))) ! i \<or>
       (10 \<le> data (vec [50, 1 / 100]) ! i \<and> 10 \<le> data (tb_W (ex_batch (vec [100, 1 / 1000]))) ! i) \<or>
       (data (vec [50, 1 / 100]) ! i \<le> 1 / 10 \<and> data (tb_W (ex_batch (vec [100, 1 / 1000]))) ! i \<le> 1 / 10)"
    by (simp add: w vec_def less_Suc_eq all_conj_distrib)
  have tv: "\<forall>tp ts key. target_func_value (ex_collab False) tp ts key
        ((ex_batch (vec [100, 1 / 1000]))\<lparr>tb_W := vec [50, 1 / 100]\<rparr>) =
      target_func_value (ex_collab False) tp ts key (ex_batch (vec [100, 1 / 1000]))"
    by (simp add: ex_collab_def)
  have td: "\<forall>tp ts key. target_func_dist (ex_collab False) tp ts key
        ((ex_batch (vec [100, 1 / 1000]))\<lparr>tb_W := vec [50, 1 / 100]\<rparr>) =
      target_func_dist (ex_collab False) tp ts key (ex_batch (vec [100, 1 / 1000]))"
    by (simp add: ex_collab_def)
  have be: "\<forall>x rp rh rs key. batch_eval (ex_collab False) x rp rh rs key
        ((ex_batch (vec [100, 1 / 1000]))\<lparr>tb_W := vec [50, 1 / 100]\<rparr>) =
      batch_eval (ex_collab False) x rp rh rs key (ex_batch (vec [100, 1 / 1000]))"
    by (simp add: ex_collab_def)
  have c1: "jnp_clip (vec [100, 1 / 1000]) (1 / 10) 10 = vec [10, 1 / 10]"
    and c2: "jnp_clip (vec [50, 1 / 100]) (1 / 10) 10 = vec [10, 1 / 10]"
    by (simp_all add: jnp_clip_def vec_def)
  show ?thesis
    using importance_weights_clipped[OF sh len out tv td be, of "ex_self_mse PyNone"
        "ex_array (Finite 1)" "ex_targets ''v_targ''" "Node ''dict'' []" "ex_targets ''v_targ''" 1]
      c1 c2
    by simp
qed










end
